theory Spec2Isabelle
  imports Main
begin

section \<open>Data model of \<open>scripts/create_final_csv.py\<close>\<close>

text \<open>
  The script works on one pandas DataFrame. A frame is kept here as its column index
  and its rows in order; a row is the list of its cells, in column order. The cells that
  \<open>pd.read_csv\<close> and \<open>pd.to_datetime\<close> can produce are: the missing markers \<open>NaN\<close> and
  \<open>NaT\<close>, text, a number (the script never computes with numbers, so their
  representation \<open>'n\<close> is left open), a time stamp of a datetime column, and a Python
  \<open>datetime\<close> object held in a column of dtype \<open>object\<close>. A column is a datetime
  column when all its cells are time stamps or \<open>NaT\<close>.
\<close>

record timestamp =
  year :: nat
  month :: nat
  day :: nat
  nanos :: nat

datatype 'n cell = NaN | NaT | Str string | Num 'n | Timestamp timestamp | DatetimeObject timestamp

record 'n frame =
  columns :: "string list"
  rows :: "'n cell list list"

text \<open>The exceptions that the script can meet.\<close>

datatype error =
  FileNotFoundError | KeyError "string list" | AttributeError | ValueError | OtherError

text \<open>A frame is rectangular and \<open>read_csv\<close> makes its column names distinct.\<close>

definition wf_frame :: "'n frame \<Rightarrow> bool" where
  "wf_frame df \<longleftrightarrow>
     distinct (columns df) \<and> list_all (\<lambda>r. length r = length (columns df)) (rows df)"

subsection \<open>The pandas operations the script calls\<close>

text \<open>Position of the first occurrence of a label.\<close>

fun index_of :: "'a list \<Rightarrow> 'a \<Rightarrow> nat option" where
  "index_of [] c = None"
| "index_of (x # xs) c = (if x = c then Some 0 else map_option Suc (index_of xs c))"

text \<open>\<open>df[c]\<close>: the column as a series, or \<open>KeyError\<close>.\<close>

definition getitem :: "'n frame \<Rightarrow> string \<Rightarrow> error + 'n cell list" where
  "getitem df c =
     (case index_of (columns df) c of
        None \<Rightarrow> Inl (KeyError [c])
      | Some i \<Rightarrow> Inr (map (\<lambda>r. r ! i) (rows df)))"

fun locs :: "string list \<Rightarrow> string list \<Rightarrow> nat list option" where
  "locs have [] = Some []"
| "locs have (c # cs) =
     (case index_of have c of
        None \<Rightarrow> None
      | Some i \<Rightarrow> map_option ((#) i) (locs have cs))"

text \<open>\<open>[col for col in cols if col not in df.columns]\<close>\<close>

definition missing_from :: "'n frame \<Rightarrow> string list \<Rightarrow> string list" where
  "missing_from df cols = filter (\<lambda>col. col \<notin> set (columns df)) cols"

text \<open>\<open>df[cols]\<close>: the columns \<open>cols\<close> in that order, or \<open>KeyError\<close>.\<close>

definition getitems :: "'n frame \<Rightarrow> string list \<Rightarrow> error + 'n frame" where
  "getitems df cols =
     (case locs (columns df) cols of
        None \<Rightarrow> Inl (KeyError (missing_from df cols))
      | Some is \<Rightarrow> Inr \<lparr>columns = cols, rows = map (\<lambda>r. map ((!) r) is) (rows df)\<rparr>)"

text \<open>\<open>df[c] = s\<close>: replaces the column \<open>c\<close>, or appends it when it is new.\<close>

definition setitem :: "'n frame \<Rightarrow> string \<Rightarrow> 'n cell list \<Rightarrow> 'n frame" where
  "setitem df c s =
     (case index_of (columns df) c of
        Some i \<Rightarrow> df\<lparr>rows := map (\<lambda>(r, v). r[i := v]) (zip (rows df) s)\<rparr>
      | None \<Rightarrow> df\<lparr>columns := columns df @ [c],
                   rows := map (\<lambda>(r, v). r @ [v]) (zip (rows df) s)\<rparr>)"

definition isnull :: "'n cell \<Rightarrow> bool" where
  "isnull v = (case v of NaN \<Rightarrow> True | NaT \<Rightarrow> True | _ \<Rightarrow> False)"

text \<open>
  Keeping first occurrences: the rows are visited in order and a row is kept when its key
  has not been seen. This is \<open>drop_duplicates(subset=[k])\<close> with the default
  \<open>keep='first'\<close>, and \<open>Series.unique()\<close>; both count a missing value as a value.
\<close>

fun keep_first :: "('a \<Rightarrow> 'k) \<Rightarrow> 'k list \<Rightarrow> 'a list \<Rightarrow> 'a list" where
  "keep_first key seen [] = []"
| "keep_first key seen (r # rs) =
     (if key r \<in> set seen then keep_first key seen rs
      else r # keep_first key (key r # seen) rs)"

definition drop_duplicates :: "'n frame \<Rightarrow> string \<Rightarrow> error + 'n frame" where
  "drop_duplicates df k =
     (case index_of (columns df) k of
        None \<Rightarrow> Inl (KeyError [k])
      | Some i \<Rightarrow> Inr (df\<lparr>rows := keep_first (\<lambda>r. r ! i) [] (rows df)\<rparr>))"

definition unique :: "'n cell list \<Rightarrow> 'n cell list" where
  "unique s = keep_first (\<lambda>v. v) [] s"

text \<open>\<open>df.dropna()\<close>: the rows without a missing value.\<close>

definition dropna :: "'n frame \<Rightarrow> 'n frame" where
  "dropna df = df\<lparr>rows := filter (\<lambda>r. \<not> list_ex isnull r) (rows df)\<rparr>"

text \<open>\<open>df.rename(columns=dict(zip(old, new)))\<close>; in a \<open>dict\<close> the last pair of a key wins.\<close>

definition rename :: "'n frame \<Rightarrow> (string \<times> string) list \<Rightarrow> 'n frame" where
  "rename df m =
     df\<lparr>columns := map (\<lambda>c. case map_of (rev m) c of Some c' \<Rightarrow> c' | None \<Rightarrow> c) (columns df)\<rparr>"

subsection \<open>\<open>strftime('%Y-%m-%d')\<close>\<close>

fun digits :: "nat \<Rightarrow> string" where
  "digits n =
     (if n < 10 then [''0123456789'' ! n]
      else digits (n div 10) @ [''0123456789'' ! (n mod 10)])"

declare digits.simps [simp del]

definition zfill :: "nat \<Rightarrow> string \<Rightarrow> string" where
  "zfill w s = replicate (w - length s) (CHR ''0'') @ s"

definition strftime_ymd :: "timestamp \<Rightarrow> string" where
  "strftime_ymd t =
     zfill 4 (digits (year t)) @ ''-'' @ zfill 2 (digits (month t)) @ ''-''
       @ zfill 2 (digits (day t))"

text \<open>
  \<open>s.dt.strftime('%Y-%m-%d')\<close>: the \<open>.dt\<close> accessor exists on a series of time stamps only
  (\<open>AttributeError\<close> otherwise); \<open>NaT\<close> is formatted as \<open>NaN\<close>.
\<close>

definition is_datetime :: "'n cell \<Rightarrow> bool" where
  "is_datetime v = (case v of NaT \<Rightarrow> True | Timestamp t \<Rightarrow> True | _ \<Rightarrow> False)"

definition strftime_cell :: "'n cell \<Rightarrow> 'n cell" where
  "strftime_cell v = (case v of Timestamp t \<Rightarrow> Str (strftime_ymd t) | _ \<Rightarrow> NaN)"

definition dt_strftime :: "'n cell list \<Rightarrow> error + 'n cell list" where
  "dt_strftime s =
     (if list_all is_datetime s then Inr (map strftime_cell s) else Inl AttributeError)"

section \<open>The script\<close>

text \<open>
  What the script prints, one constructor per \<open>print\<close> statement, with the values that
  the statement interpolates (paths are constants of the script and left out).
\<close>

datatype message =
    FolderCreated
  | FolderError
  | CheckPathHint
  | Loading
  | LoadedRows nat
  | NullDatesWarning
  | FileNotFound
  | RunTransformHint
  | UnexpectedLoadError error
  | Creating string
  | Saved nat string
  | SaveError string error
  | ColumnsMissing string
  | ShipModeMissing
  | FactColumnsMissing "string list"
  | AvailableColumns "string list"
  | SelectedColumns nat
  | FormattingDates
  | DateFormatWarning
  | DateFormatError error
  | Finished

text \<open>
  The world outside the script: whether the output folder exists, whether \<open>os.makedirs\<close>
  succeeds, what \<open>pd.read_csv\<close> returns, what \<open>pd.to_datetime(s, errors='coerce')\<close>
  does with a series \<open>s\<close>, and whether a \<open>to_csv\<close> succeeds. The conversion is a call
  into pandas and is not part of the script: it may raise (pandas 3 on values with
  different UTC offsets), it may return a datetime column in which the values that do not
  parse are \<open>NaT\<close>, and it may return a column of dtype \<open>object\<close> that holds Python
  \<open>datetime\<close> objects (pandas 2 on values with different UTC offsets).
\<close>

record 'n env =
  path_exists :: bool
  makedirs_ok :: bool
  read_csv :: "error + 'n frame"
  to_datetime :: "'n cell list \<Rightarrow> error + 'n cell list"
  to_csv :: "string \<Rightarrow> 'n frame \<Rightarrow> error option"

datatype status = Completed | Exited | Uncaught error

record 'n result =
  printed :: "message list"
  files :: "(string \<times> 'n frame) list"
  status :: status

subsection \<open>Output folder (lines 20 to 27)\<close>

definition ensure_output_folder :: "'n env \<Rightarrow> message list \<times> bool" where
  "ensure_output_folder e =
     (if \<not> path_exists e then
        (if makedirs_ok e then ([FolderCreated], True)
         else ([FolderError, CheckPathHint], False))
      else ([], True))"

subsection \<open>Loading (lines 30 to 51)\<close>

text \<open>
  \<open>if c in df.columns: df[c] = pd.to_datetime(df[c], errors='coerce')\<close>, with the
  conversion \<open>conv\<close> of the environment.
\<close>

definition convert_column ::
  "('n cell list \<Rightarrow> error + 'n cell list) \<Rightarrow> string \<Rightarrow> 'n frame \<Rightarrow> error + 'n frame" where
  "convert_column conv c df =
     (if c \<in> set (columns df) then
        (case getitem df c of
           Inl x \<Rightarrow> Inl x
         | Inr s \<Rightarrow> (case conv s of Inl x \<Rightarrow> Inl x | Inr s' \<Rightarrow> Inr (setitem df c s')))
      else Inr df)"

text \<open>
  \<open>df['Order Date'].isnull().any() or df['Ship Date'].isnull().any()\<close>: Python's \<open>or\<close>
  evaluates its right operand only when the left one is false.
\<close>

definition null_dates :: "'n frame \<Rightarrow> error + bool" where
  "null_dates df =
     (case getitem df ''Order Date'' of
        Inl x \<Rightarrow> Inl x
      | Inr od \<Rightarrow>
          if list_ex isnull od then Inr True
          else (case getitem df ''Ship Date'' of
                  Inl x \<Rightarrow> Inl x
                | Inr sd \<Rightarrow> Inr (list_ex isnull sd)))"

text \<open>The body of the \<open>try\<close> after \<open>read_csv\<close> has returned.\<close>

definition convert_and_check ::
  "('n cell list \<Rightarrow> error + 'n cell list) \<Rightarrow> 'n frame \<Rightarrow> error + (message list \<times> 'n frame)" where
  "convert_and_check conv df0 =
     (case convert_column conv ''Order Date'' df0 of
        Inl x \<Rightarrow> Inl x
      | Inr df1 \<Rightarrow>
          (case convert_column conv ''Ship Date'' df1 of
             Inl x \<Rightarrow> Inl x
           | Inr df2 \<Rightarrow>
               (case null_dates df2 of
                  Inl x \<Rightarrow> Inl x
                | Inr b \<Rightarrow> Inr (if b then [NullDatesWarning] else [], df2))))"

text \<open>The result is \<open>None\<close> when the script calls \<open>exit()\<close>.\<close>

definition load_data :: "'n env \<Rightarrow> message list \<times> 'n frame option" where
  "load_data e =
     (case read_csv e of
        Inl FileNotFoundError \<Rightarrow> ([Loading, FileNotFound, RunTransformHint], None)
      | Inl x \<Rightarrow> ([Loading, UnexpectedLoadError x], None)
      | Inr df0 \<Rightarrow>
          (case convert_and_check (to_datetime e) df0 of
             Inl x \<Rightarrow> ([Loading, LoadedRows (length (rows df0)), UnexpectedLoadError x], None)
           | Inr (ms, df) \<Rightarrow> ([Loading, LoadedRows (length (rows df0))] @ ms, Some df)))"

subsection \<open>Saving a table\<close>

text \<open>
  The \<open>try\<close> around each \<open>to_csv\<close>. A file stands for the frame written to it; a write
  that raises leaves no file.
\<close>

definition save :: "'n env \<Rightarrow> string \<Rightarrow> 'n frame \<Rightarrow> message list \<times> (string \<times> 'n frame) list" where
  "save e name df =
     (case to_csv e name df of
        None \<Rightarrow> ([Saved (length (rows df)) name], [(name, df)])
      | Some x \<Rightarrow> ([SaveError name x], []))"

text \<open>
  A section of the script gives what it prints, the files it writes and, when an
  exception leaves it uncaught, that exception.
\<close>

type_synonym 'n outcome = "message list \<times> (string \<times> 'n frame) list \<times> error option"

definition saved :: "message list \<Rightarrow> message list \<times> (string \<times> 'n frame) list \<Rightarrow> 'n outcome" where
  "saved ms out = (ms @ fst out, snd out, None)"

subsection \<open>Customer dimension (lines 56 to 69)\<close>

definition customer_cols :: "string list" where
  "customer_cols = [''Customer ID'', ''Customer Name'', ''Segment'', ''Country'', ''City'',
     ''State'', ''Postal Code'', ''Region'']"

definition customers_df :: "'n frame \<Rightarrow> error + 'n frame" where
  "customers_df df =
     (case getitems df customer_cols of
        Inl x \<Rightarrow> Inl x
      | Inr sub \<Rightarrow> drop_duplicates sub ''Customer ID'')"

definition create_customers :: "'n env \<Rightarrow> 'n frame \<Rightarrow> 'n outcome" where
  "create_customers e df =
     (if list_all (\<lambda>col. col \<in> set (columns df)) customer_cols then
        (case customers_df df of
           Inl x \<Rightarrow> ([Creating ''customers.csv''], [], Some x)
         | Inr out \<Rightarrow> saved [Creating ''customers.csv''] (save e ''customers.csv'' out))
      else ([Creating ''customers.csv'', ColumnsMissing ''customers.csv''], [], None))"

subsection \<open>Product dimension (lines 72 to 84)\<close>

definition product_cols :: "string list" where
  "product_cols = [''Product ID'', ''Product Name'', ''Category'', ''Sub-Category'']"

definition products_df :: "'n frame \<Rightarrow> error + 'n frame" where
  "products_df df =
     (case getitems df product_cols of
        Inl x \<Rightarrow> Inl x
      | Inr sub \<Rightarrow> drop_duplicates sub ''Product ID'')"

definition create_products :: "'n env \<Rightarrow> 'n frame \<Rightarrow> 'n outcome" where
  "create_products e df =
     (if list_all (\<lambda>col. col \<in> set (columns df)) product_cols then
        (case products_df df of
           Inl x \<Rightarrow> ([Creating ''products.csv''], [], Some x)
         | Inr out \<Rightarrow> saved [Creating ''products.csv''] (save e ''products.csv'' out))
      else ([Creating ''products.csv'', ColumnsMissing ''products.csv''], [], None))"

subsection \<open>Ship mode dimension (lines 87 to 99)\<close>

definition ship_mode_col :: string where
  "ship_mode_col = ''Ship Mode''"

definition ship_modes_df :: "'n frame \<Rightarrow> error + 'n frame" where
  "ship_modes_df df =
     (case getitem df ship_mode_col of
        Inl x \<Rightarrow> Inl x
      | Inr s \<Rightarrow> Inr (dropna \<lparr>columns = [ship_mode_col], rows = map (\<lambda>v. [v]) (unique s)\<rparr>))"

definition create_ship_modes :: "'n env \<Rightarrow> 'n frame \<Rightarrow> 'n outcome" where
  "create_ship_modes e df =
     (if ship_mode_col \<in> set (columns df) then
        (case ship_modes_df df of
           Inl x \<Rightarrow> ([Creating ''DimShipMode.csv''], [], Some x)
         | Inr out \<Rightarrow> saved [Creating ''DimShipMode.csv''] (save e ''DimShipMode.csv'' out))
      else ([Creating ''DimShipMode.csv'', ShipModeMissing], [], None))"

subsection \<open>Fact table (lines 102 to 149)\<close>

definition fact_sales_sql_columns :: "string list" where
  "fact_sales_sql_columns = [''OrderID'', ''CustomerID'', ''ProductID'', ''OrderDate'',
     ''ShipDate'', ''ShipMode'', ''Sales'', ''Order_Year'', ''Order_Month'', ''Order_Day'',
     ''Order_Weekday'', ''Shipping_Delay'', ''Log_Sales'', ''Scaled_Sales'']"

definition fact_sales_df_columns :: "string list" where
  "fact_sales_df_columns = [''Order ID'', ''Customer ID'', ''Product ID'', ''Order Date'',
     ''Ship Date'', ''Ship Mode'', ''Sales'', ''Order_Year'', ''Order_Month'', ''Order_Day'',
     ''Order_Weekday'', ''Shipping_Delay'', ''Log_Sales'', ''Scaled_Sales'']"

definition rename_map :: "(string \<times> string) list" where
  "rename_map = zip fact_sales_df_columns fact_sales_sql_columns"

text \<open>
  One assignment of the \<open>try\<close> at lines 135 and 136: \<open>f[c] = f[c].dt.strftime('%Y-%m-%d')\<close>.
\<close>

definition format_column :: "'n frame \<Rightarrow> string \<Rightarrow> error + 'n frame" where
  "format_column f c =
     (case getitem f c of
        Inl x \<Rightarrow> Inl x
      | Inr s \<Rightarrow> (case dt_strftime s of Inl x \<Rightarrow> Inl x | Inr s' \<Rightarrow> Inr (setitem f c s')))"

definition format_handler :: "error \<Rightarrow> message" where
  "format_handler x = (case x of AttributeError \<Rightarrow> DateFormatWarning | _ \<Rightarrow> DateFormatError x)"

text \<open>
  The \<open>try\<close> with its two handlers: when the second assignment raises, the first one has
  already been done.
\<close>

definition format_dates :: "'n frame \<Rightarrow> message list \<times> 'n frame" where
  "format_dates f =
     (case format_column f ''OrderDate'' of
        Inl x \<Rightarrow> ([format_handler x], f)
      | Inr f1 \<Rightarrow>
          (case format_column f1 ''ShipDate'' of
             Inl x \<Rightarrow> ([format_handler x], f1)
           | Inr f2 \<Rightarrow> ([], f2)))"

text \<open>The frame that line 146 writes, with the warnings of the date formatting.\<close>

definition fact_sales_df :: "'n frame \<Rightarrow> error + (message list \<times> 'n frame)" where
  "fact_sales_df df =
     (case getitems df fact_sales_df_columns of
        Inl x \<Rightarrow> Inl x
      | Inr sel \<Rightarrow> Inr (format_dates (rename sel rename_map)))"

definition create_fact_sales :: "'n env \<Rightarrow> 'n frame \<Rightarrow> 'n outcome" where
  "create_fact_sales e df =
     (let missing_cols = missing_from df fact_sales_df_columns in
      if missing_cols \<noteq> [] then
        ([Creating ''FactSales.csv'', FactColumnsMissing missing_cols,
          AvailableColumns (columns df)], [], None)
      else
        (case fact_sales_df df of
           Inl x \<Rightarrow> ([Creating ''FactSales.csv''], [], Some x)
         | Inr (ws, out) \<Rightarrow>
             saved ([Creating ''FactSales.csv'', SelectedColumns (length fact_sales_sql_columns),
                     FormattingDates] @ ws)
               (save e ''FactSales.csv'' out)))"

subsection \<open>The whole run\<close>

text \<open>The sections run in order; an uncaught exception stops the script.\<close>

fun run_sections :: "'n outcome list \<Rightarrow> 'n result \<Rightarrow> 'n result" where
  "run_sections [] r = r\<lparr>printed := printed r @ [Finished], status := Completed\<rparr>"
| "run_sections ((ms, fs, None) # ss) r =
     run_sections ss (r\<lparr>printed := printed r @ ms, files := files r @ fs\<rparr>)"
| "run_sections ((ms, fs, Some x) # ss) r =
     r\<lparr>printed := printed r @ ms, files := files r @ fs, status := Uncaught x\<rparr>"

definition sections :: "'n env \<Rightarrow> 'n frame \<Rightarrow> 'n outcome list" where
  "sections e df =
     [create_customers e df, create_products e df, create_ship_modes e df,
      create_fact_sales e df]"

definition run :: "'n env \<Rightarrow> 'n result" where
  "run e =
     (case ensure_output_folder e of
        (m0, False) \<Rightarrow> \<lparr>printed = m0, files = [], status = Exited\<rparr>
      | (m0, True) \<Rightarrow>
          (case load_data e of
             (m1, None) \<Rightarrow> \<lparr>printed = m0 @ m1, files = [], status = Exited\<rparr>
           | (m1, Some df) \<Rightarrow>
               run_sections (sections e df)
                 \<lparr>printed = m0 @ m1, files = [], status = Exited\<rparr>))"


section \<open>Example frames\<close>

definition ship_example :: "nat frame" where
  "ship_example = \<lparr>columns = [''Order ID'', ''Ship Mode''],
     rows = [[Str ''O1'', Str ''Standard''], [Str ''O2'', Str ''Standard''],
             [Str ''O3'', Str ''Express''], [Str ''O4'', NaN]]\<rparr>"

definition customers_example :: "nat frame" where
  "customers_example = \<lparr>columns = [''Customer ID'', ''Customer Name'', ''Segment'',
       ''Country'', ''City'', ''State'', ''Postal Code'', ''Region''],
     rows = [
       [Str ''C1'', Str ''Alice'', Str ''Consumer'', Str ''US'', Str ''Austin'', Str ''Texas'', Num 73301, Str ''Central''],
       [Str ''C2'', Str ''Bob'', Str ''Corporate'', Str ''US'', Str ''Boston'', Str ''Massachusetts'', Num 2108, Str ''East''],
       [Str ''C1'', Str ''Alicia'', Str ''Home Office'', Str ''US'', Str ''Dallas'', Str ''Texas'', Num 75001, Str ''Central''],
       [NaN, Str ''Carol'', Str ''Consumer'', Str ''US'', Str ''Denver'', Str ''Colorado'', Num 80014, Str ''West''],
       [NaN, Str ''Dave'', Str ''Consumer'', Str ''US'', Str ''Miami'', Str ''Florida'', NaN, Str ''South'']]\<rparr>"

definition products_example :: "nat frame" where
  "products_example = \<lparr>columns = [''Category'', ''Product ID'', ''Sub-Category'', ''Product Name''],
     rows = [
       [Str ''Furniture'', Str ''P1'', Str ''Chairs'', Str ''Stool''],
       [Str ''Furniture'', Str ''P1'', Str ''Tables'', Str ''Desk''],
       [Str ''Technology'', Str ''P2'', Str ''Phones'', Str ''Handset'']]\<rparr>"

text \<open>
  A source file with the fourteen fact columns and one more; the second row has a ship
  date that does not parse. \<open>example_to_datetime\<close> reads the two dates of the file, and
  \<open>loaded_example\<close> is the frame after loading.
\<close>

definition fact_example :: "nat frame" where
  "fact_example = \<lparr>columns = [''Order ID'', ''Order Date'', ''Ship Date'', ''Ship Mode'',
       ''Customer ID'', ''Customer Name'', ''Product ID'', ''Sales'', ''Order_Year'',
       ''Order_Month'', ''Order_Day'', ''Order_Weekday'', ''Shipping_Delay'', ''Log_Sales'',
       ''Scaled_Sales''],
     rows = [
       [Str ''O1'', Str ''2023-03-05'', Str ''2023-03-09'', Str ''Standard'', Str ''C1'',
        Str ''Alice'', Str ''P1'', Num 120, Num 2023, Num 3, Num 5, Num 6, Num 4, Num 5, Num 1],
       [Str ''O1'', Str ''2023-03-05'', Str ''soon'', Str ''Standard'', Str ''C1'',
        Str ''Alice'', Str ''P2'', Num 40, Num 2023, Num 3, Num 5, Num 6, NaN, Num 4, Num 0]]\<rparr>"

definition example_cell :: "nat cell \<Rightarrow> nat cell" where
  "example_cell v =
     (if v = Str ''2023-03-05'' then Timestamp \<lparr>year = 2023, month = 3, day = 5, nanos = 0\<rparr>
      else if v = Str ''2023-03-09'' then Timestamp \<lparr>year = 2023, month = 3, day = 9, nanos = 0\<rparr>
      else NaT)"

definition example_to_datetime :: "nat cell list \<Rightarrow> error + nat cell list" where
  "example_to_datetime s = Inr (map example_cell s)"

definition loaded_example :: "nat frame" where
  "loaded_example = \<lparr>columns = columns fact_example,
     rows = [
       [Str ''O1'', Timestamp \<lparr>year = 2023, month = 3, day = 5, nanos = 0\<rparr>,
        Timestamp \<lparr>year = 2023, month = 3, day = 9, nanos = 0\<rparr>, Str ''Standard'', Str ''C1'',
        Str ''Alice'', Str ''P1'', Num 120, Num 2023, Num 3, Num 5, Num 6, Num 4, Num 5, Num 1],
       [Str ''O1'', Timestamp \<lparr>year = 2023, month = 3, day = 5, nanos = 0\<rparr>, NaT,
        Str ''Standard'', Str ''C1'',
        Str ''Alice'', Str ''P2'', Num 40, Num 2023, Num 3, Num 5, Num 6, NaN, Num 4, Num 0]]\<rparr>"

text \<open>
  An environment for a source file: the output folder exists, every write succeeds and the
  conversion reads the two dates above into a datetime column.
\<close>

definition example_env :: "nat frame \<Rightarrow> nat env" where
  "example_env df = \<lparr>path_exists = True, makedirs_ok = True, read_csv = Inr df,
     to_datetime = example_to_datetime, to_csv = (\<lambda>name f. None)\<rparr>"

text \<open>Two files with the same number of rows: one missing date, and five.\<close>

definition dates_example :: "nat frame" where
  "dates_example = \<lparr>columns = [''Order ID'', ''Order Date'', ''Ship Date''],
     rows = [[Str ''O1'', Str ''2023-03-05'', Str ''2023-03-09''],
             [Str ''O2'', Str ''2023-03-05'', Str ''soon''],
             [Str ''O3'', Str ''2023-03-05'', Str ''2023-03-09'']]\<rparr>"

definition bad_dates_example :: "nat frame" where
  "bad_dates_example = \<lparr>columns = [''Order ID'', ''Order Date'', ''Ship Date''],
     rows = [[Str ''O1'', Str ''2023-03-05'', NaN],
             [Str ''O2'', Str ''05/03/23'', Str ''soon''],
             [Str ''O3'', Num 5, Str ''later'']]\<rparr>"

text \<open>Files without a \<open>Ship Date\<close> column: one order date does not parse, or all do.\<close>

definition no_ship_date_example :: "nat frame" where
  "no_ship_date_example = \<lparr>columns = [''Order ID'', ''Order Date'', ''Ship Mode''],
     rows = [[Str ''O1'', Str ''2023-03-05'', Str ''Standard''],
             [Str ''O2'', Str ''soon'', Str ''Express'']]\<rparr>"

definition clean_no_ship_date_example :: "nat frame" where
  "clean_no_ship_date_example = \<lparr>columns = [''Order ID'', ''Order Date'', ''Ship Mode''],
     rows = [[Str ''O1'', Str ''2023-03-05'', Str ''Standard''],
             [Str ''O2'', Str ''2023-03-09'', Str ''Express'']]\<rparr>"

text \<open>
  Two files that lack one product column each, \<open>Sub-Category\<close> and \<open>Category\<close>, and have
  every other column of the four tables.
\<close>

definition store_rows :: "nat cell list list" where
  "store_rows = [
     [Str ''O1'', Str ''2023-03-05'', Str ''2023-03-09'', Str ''Standard'', Str ''C1'',
      Str ''Alice'', Str ''Consumer'', Str ''US'', Str ''Austin'', Str ''Texas'', Num 73301,
      Str ''Central'', Str ''P1'', Str ''Chairs'', Str ''Stool'', Num 120, Num 2023, Num 3,
      Num 5, Num 6, Num 4, Num 5, Num 1],
     [Str ''O1'', Str ''2023-03-05'', Str ''2023-03-09'', Str ''Standard'', Str ''C1'',
      Str ''Alice'', Str ''Consumer'', Str ''US'', Str ''Austin'', Str ''Texas'', Num 73301,
      Str ''Central'', Str ''P2'', Str ''Phones'', Str ''Handset'', Num 40, Num 2023, Num 3,
      Num 5, Num 6, Num 4, Num 4, Num 0]]"

definition no_subcategory_example :: "nat frame" where
  "no_subcategory_example = \<lparr>columns = [''Order ID'', ''Order Date'', ''Ship Date'',
       ''Ship Mode'', ''Customer ID'', ''Customer Name'', ''Segment'', ''Country'', ''City'',
       ''State'', ''Postal Code'', ''Region'', ''Product ID'', ''Category'', ''Product Name'',
       ''Sales'', ''Order_Year'', ''Order_Month'', ''Order_Day'', ''Order_Weekday'',
       ''Shipping_Delay'', ''Log_Sales'', ''Scaled_Sales''],
     rows = store_rows\<rparr>"

definition no_category_example :: "nat frame" where
  "no_category_example = \<lparr>columns = [''Order ID'', ''Order Date'', ''Ship Date'',
       ''Ship Mode'', ''Customer ID'', ''Customer Name'', ''Segment'', ''Country'', ''City'',
       ''State'', ''Postal Code'', ''Region'', ''Product ID'', ''Sub-Category'', ''Product Name'',
       ''Sales'', ''Order_Year'', ''Order_Month'', ''Order_Day'', ''Order_Weekday'',
       ''Shipping_Delay'', ''Log_Sales'', ''Scaled_Sales''],
     rows = store_rows\<rparr>"

text \<open>
  A file whose order dates carry different UTC offsets, and the conversion of pandas 2,
  which returns for them a column of dtype \<open>object\<close> with one Python \<open>datetime\<close> object
  for each value.
\<close>

definition offsets_example :: "nat frame" where
  "offsets_example = \<lparr>columns = [''Order ID'', ''Customer ID'', ''Product ID'', ''Order Date'',
       ''Ship Date'', ''Ship Mode'', ''Sales'', ''Order_Year'', ''Order_Month'', ''Order_Day'',
       ''Order_Weekday'', ''Shipping_Delay'', ''Log_Sales'', ''Scaled_Sales''],
     rows = [
       [Str ''O1'', Str ''C1'', Str ''P1'', Str ''2023-03-05 00:00:00+01:00'', Str ''2023-03-09'',
        Str ''Standard'', Num 120, Num 2023, Num 3, Num 5, Num 6, Num 4, Num 5, Num 1],
       [Str ''O2'', Str ''C2'', Str ''P2'', Str ''2023-03-05 00:00:00+02:00'', Str ''2023-03-09'',
        Str ''Express'', Num 40, Num 2023, Num 3, Num 5, Num 6, Num 4, Num 4, Num 0]]\<rparr>"

definition pandas2_to_datetime :: "nat cell list \<Rightarrow> error + nat cell list" where
  "pandas2_to_datetime s =
     (if s = [Str ''2023-03-05 00:00:00+01:00'', Str ''2023-03-05 00:00:00+02:00'']
      then Inr [DatetimeObject \<lparr>year = 2023, month = 3, day = 5, nanos = 0\<rparr>,
                DatetimeObject \<lparr>year = 2023, month = 3, day = 5, nanos = 0\<rparr>]
      else Inr (map example_cell s))"

text \<open>The frames that loading makes of these two files.\<close>

definition offsets_loaded :: "nat frame" where
  "offsets_loaded = \<lparr>columns = columns offsets_example,
     rows = [
       [Str ''O1'', Str ''C1'', Str ''P1'', DatetimeObject \<lparr>year = 2023, month = 3, day = 5, nanos = 0\<rparr>,
        Timestamp \<lparr>year = 2023, month = 3, day = 9, nanos = 0\<rparr>,
        Str ''Standard'', Num 120, Num 2023, Num 3, Num 5, Num 6, Num 4, Num 5, Num 1],
       [Str ''O2'', Str ''C2'', Str ''P2'', DatetimeObject \<lparr>year = 2023, month = 3, day = 5, nanos = 0\<rparr>,
        Timestamp \<lparr>year = 2023, month = 3, day = 9, nanos = 0\<rparr>,
        Str ''Express'', Num 40, Num 2023, Num 3, Num 5, Num 6, Num 4, Num 4, Num 0]]\<rparr>"

definition no_subcategory_loaded :: "nat frame" where
  "no_subcategory_loaded = \<lparr>columns = columns no_subcategory_example,
     rows = [
       [Str ''O1'', Timestamp \<lparr>year = 2023, month = 3, day = 5, nanos = 0\<rparr>,
        Timestamp \<lparr>year = 2023, month = 3, day = 9, nanos = 0\<rparr>, Str ''Standard'', Str ''C1'',
        Str ''Alice'', Str ''Consumer'', Str ''US'', Str ''Austin'', Str ''Texas'', Num 73301,
        Str ''Central'', Str ''P1'', Str ''Chairs'', Str ''Stool'', Num 120, Num 2023, Num 3,
        Num 5, Num 6, Num 4, Num 5, Num 1],
       [Str ''O1'', Timestamp \<lparr>year = 2023, month = 3, day = 5, nanos = 0\<rparr>,
        Timestamp \<lparr>year = 2023, month = 3, day = 9, nanos = 0\<rparr>, Str ''Standard'', Str ''C1'',
        Str ''Alice'', Str ''Consumer'', Str ''US'', Str ''Austin'', Str ''Texas'', Num 73301,
        Str ''Central'', Str ''P2'', Str ''Phones'', Str ''Handset'', Num 40, Num 2023, Num 3,
        Num 5, Num 6, Num 4, Num 4, Num 0]]\<rparr>"

section \<open>Facts about the pandas operations\<close>


lemma index_of_None_iff: "index_of xs c = None \<longleftrightarrow> c \<notin> set xs"
  by (induction xs) auto

lemma index_of_Some_D:
  "index_of xs c = Some i \<Longrightarrow> i < length xs \<and> xs ! i = c \<and> (\<forall>j<i. xs ! j \<noteq> c)"
proof (induction xs arbitrary: i)
  case Nil
  then show ?case by simp
next
  case (Cons x xs)
  show ?case
  proof (cases "x = c")
    case True
    with Cons.prems show ?thesis by simp
  next
    case False
    with Cons.prems obtain i' where i': "index_of xs c = Some i'" "i = Suc i'"
      by auto
    from Cons.IH [OF i'(1)] False i'(2) show ?thesis
      by (auto simp: nth_Cons split: nat.splits)
  qed
qed

lemma index_of_mem: "c \<in> set xs \<Longrightarrow> \<exists>i. index_of xs c = Some i"
  using index_of_None_iff [of xs c] by (cases "index_of xs c") auto

lemma index_of_Some_mem: "index_of xs c = Some i \<Longrightarrow> c \<in> set xs"
  using index_of_None_iff [of xs c] by auto

lemma index_of_map_nth:
  "index_of (map f xs) k = Some i \<Longrightarrow> i < length xs \<and> f (xs ! i) = k"
  using index_of_Some_D [of "map f xs" k i] by auto

lemma locs_Some_iff: "(\<exists>is. locs have cs = Some is) \<longleftrightarrow> set cs \<subseteq> set have"
  by (induction cs) (auto simp: index_of_None_iff dest: index_of_Some_mem split: option.splits)

lemma locs_length: "locs have cs = Some is \<Longrightarrow> length is = length cs"
  by (induction cs arbitrary: "is") (auto split: option.splits)

lemma locs_index:
  "locs have cs = Some is \<Longrightarrow> index_of cs c = Some j \<Longrightarrow> index_of have c = Some (is ! j)"
proof (induction cs arbitrary: "is" j)
  case Nil
  then show ?case by simp
next
  case (Cons x cs)
  then show ?case
    by (auto split: option.splits if_splits)
qed

lemma keep_first_subset: "set (keep_first f seen xs) \<subseteq> set xs"
  by (induction xs arbitrary: seen) auto

lemma keep_first_keys: "f ` set (keep_first f seen xs) = f ` set xs - set seen"
  by (induction xs arbitrary: seen) auto

lemma keep_first_distinct: "distinct (map f (keep_first f seen xs))"
proof (induction xs arbitrary: seen)
  case Nil
  then show ?case by simp
next
  case (Cons x xs)
  have "f x \<notin> f ` set (keep_first f (f x # seen) xs)"
    by (simp add: keep_first_keys)
  with Cons show ?case by auto
qed

lemma keep_first_map: "keep_first f seen (map g xs) = map g (keep_first (\<lambda>x. f (g x)) seen xs)"
  by (induction xs arbitrary: seen) auto

lemma map_keep_first: "map f (keep_first f seen xs) = keep_first (\<lambda>v. v) seen (map f xs)"
  by (induction xs arbitrary: seen) auto

lemma keep_first_filter_gen:
  "filter P seen = filter P seen' \<Longrightarrow>
   filter P (keep_first (\<lambda>v. v) seen xs) = keep_first (\<lambda>v. v) seen' (filter P xs)"
proof (induction xs arbitrary: seen seen')
  case Nil
  then show ?case by simp
next
  case (Cons x xs)
  have mem: "P x \<Longrightarrow> x \<in> set seen \<longleftrightarrow> x \<in> set seen'"
  proof -
    assume "P x"
    then have "x \<in> set seen \<longleftrightarrow> x \<in> set (filter P seen)" by simp
    also have "\<dots> \<longleftrightarrow> x \<in> set (filter P seen')" using Cons.prems by simp
    also have "\<dots> \<longleftrightarrow> x \<in> set seen'" using \<open>P x\<close> by simp
    finally show ?thesis .
  qed
  show ?case
  proof (cases "P x")
    case True
    have "filter P (x # seen) = filter P (x # seen')" using Cons.prems by simp
    from Cons.IH [OF this] Cons.IH [OF Cons.prems] mem [OF True] True show ?thesis by simp
  next
    case False
    have "filter P (x # seen) = filter P seen'" using Cons.prems False by simp
    from Cons.IH [OF this] Cons.IH [OF Cons.prems] False show ?thesis by simp
  qed
qed

lemma filter_order:
  "index_of xs a = Some i \<Longrightarrow> index_of xs b = Some j \<Longrightarrow> i < j \<Longrightarrow> P a \<Longrightarrow> P b \<Longrightarrow>
   \<exists>i' j'. index_of (filter P xs) a = Some i' \<and> index_of (filter P xs) b = Some j' \<and> i' < j'"
proof (induction xs arbitrary: i j)
  case Nil
  then show ?case by simp
next
  case (Cons x xs)
  have bx: "b \<noteq> x" using Cons.prems(2,3) by (auto split: if_splits)
  show ?case
  proof (cases "x = a")
    case True
    have "b \<in> set (filter P xs)"
      using Cons.prems(2,5) bx index_of_Some_mem [of xs b] by (auto split: if_splits)
    then obtain j' where "index_of (filter P xs) b = Some j'"
      using index_of_mem by fastforce
    with True bx Cons.prems(4) show ?thesis by simp
  next
    case False
    with Cons.prems(1) obtain i0 where i0: "index_of xs a = Some i0" "i = Suc i0" by auto
    from bx Cons.prems(2) obtain j0 where j0: "index_of xs b = Some j0" "j = Suc j0" by auto
    have lt: "i0 < j0" using Cons.prems(3) i0 j0 by simp
    from Cons.IH [OF i0(1) j0(1) lt Cons.prems(4,5)] False bx show ?thesis by auto
  qed
qed

lemma keep_first_is_first:
  "y \<in> set (keep_first f seen xs) \<Longrightarrow> \<exists>i. index_of (map f xs) (f y) = Some i \<and> xs ! i = y"
proof (induction xs arbitrary: seen)
  case Nil
  then show ?case by simp
next
  case (Cons x xs)
  show ?case
  proof (cases "f x = f y")
    case True
    have "f y \<notin> f ` set (keep_first f (f x # seen) xs)"
      using True by (simp add: keep_first_keys)
    then have "y \<notin> set (keep_first f (f x # seen) xs)" by blast
    moreover have "f x \<in> set seen \<Longrightarrow> y \<notin> set (keep_first f seen xs)"
    proof
      assume a: "f x \<in> set seen" "y \<in> set (keep_first f seen xs)"
      then have "f y \<in> f ` set xs - set seen" using keep_first_keys [of f seen xs] by blast
      with a True show False by simp
    qed
    ultimately have "y = x" using Cons.prems by (auto split: if_splits)
    with True show ?thesis by simp
  next
    case False
    with Cons.prems have "y \<in> set (keep_first f seen xs) \<or> y \<in> set (keep_first f (f x # seen) xs)"
      by (auto split: if_splits)
    then obtain i where "index_of (map f xs) (f y) = Some i" "xs ! i = y"
      using Cons.IH by blast
    with False show ?thesis by simp
  qed
qed

lemma keep_first_order:
  "index_of xs a = Some i \<Longrightarrow> index_of xs b = Some j \<Longrightarrow> i < j \<Longrightarrow>
   a \<notin> set seen \<Longrightarrow> b \<notin> set seen \<Longrightarrow>
   \<exists>i' j'. index_of (keep_first (\<lambda>v. v) seen xs) a = Some i' \<and>
           index_of (keep_first (\<lambda>v. v) seen xs) b = Some j' \<and> i' < j'"
proof (induction xs arbitrary: seen i j)
  case Nil
  then show ?case by simp
next
  case (Cons x xs)
  have bx: "b \<noteq> x" using Cons.prems(2,3) by (auto split: if_splits)
  show ?case
  proof (cases "x = a")
    case True
    have "b \<in> set xs" using Cons.prems(2) bx index_of_None_iff [of xs b] by (auto split: if_splits)
    then have "b \<in> set (keep_first (\<lambda>v. v) (a # seen) xs)"
      using keep_first_keys [of "\<lambda>v. v" "a # seen" xs] Cons.prems(5) bx True by auto
    then obtain j' where "index_of (keep_first (\<lambda>v. v) (a # seen) xs) b = Some j'"
      using index_of_mem by fastforce
    with True bx Cons.prems(4) show ?thesis by simp
  next
    case False
    with Cons.prems(1) obtain i0 where i0: "index_of xs a = Some i0" "i = Suc i0" by auto
    from bx Cons.prems(2) obtain j0 where j0: "index_of xs b = Some j0" "j = Suc j0" by auto
    have lt: "i0 < j0" using Cons.prems(3) i0 j0 by simp
    show ?thesis
    proof (cases "x \<in> set seen")
      case True
      with Cons.IH [OF i0(1) j0(1) lt Cons.prems(4,5)] show ?thesis by simp
    next
      case nseen: False
      have "a \<notin> set (x # seen)" "b \<notin> set (x # seen)"
        using False bx Cons.prems(4,5) by auto
      from Cons.IH [OF i0(1) j0(1) lt this] nseen False bx show ?thesis by auto
    qed
  qed
qed

lemma getitem_present:
  "c \<in> set (columns df) \<Longrightarrow> \<exists>i. index_of (columns df) c = Some i \<and> getitem df c = Inr (map (\<lambda>r. r ! i) (rows df))"
  using index_of_mem [of c "columns df"] by (auto simp: getitem_def)

lemma getitem_absent: "c \<notin> set (columns df) \<Longrightarrow> getitem df c = Inl (KeyError [c])"
  using index_of_None_iff [of "columns df" c] by (simp add: getitem_def)

lemma unique_distinct: "distinct (unique s)"
  using keep_first_distinct [of "\<lambda>v. v" "[]" s] by (simp add: unique_def)

lemma unique_set: "set (unique s) = set s"
  using keep_first_keys [of "\<lambda>v. v" "[]" s] by (simp add: unique_def)

lemma unique_filter: "filter P (unique s) = unique (filter P s)"
  by (simp add: unique_def keep_first_filter_gen)

lemma unique_order:
  "index_of s a = Some i \<Longrightarrow> index_of s b = Some j \<Longrightarrow> i < j \<Longrightarrow>
   \<exists>i' j'. index_of (unique s) a = Some i' \<and> index_of (unique s) b = Some j' \<and> i' < j'"
  using keep_first_order [of s a i b j "[]"] by (simp add: unique_def)

lemma dropna_single:
  "dropna \<lparr>columns = cs, rows = map (\<lambda>v. [v]) vs\<rparr> =
   \<lparr>columns = cs, rows = map (\<lambda>v. [v]) (filter (\<lambda>v. \<not> isnull v) vs)\<rparr>"
  by (simp add: dropna_def filter_map comp_def)


lemma extract_core:
  assumes sub: "set cols \<subseteq> set (columns df)" and kin: "k \<in> set cols"
  shows "\<exists>sel out ids. getitems df cols = Inr sel \<and> drop_duplicates sel k = Inr out
           \<and> columns out = cols
           \<and> getitem df k = Inr ids \<and> getitem out k = Inr (unique ids)
           \<and> (\<forall>j<length (unique ids). \<exists>i<length ids.
                  index_of ids (unique ids ! j) = Some i
                  \<and> (\<forall>c\<in>set cols. \<exists>s s'. getitem df c = Inr s \<and> getitem out c = Inr s'
                        \<and> s' ! j = s ! i))"
proof -
  from sub obtain "is" where "is": "locs (columns df) cols = Some is"
    using locs_Some_iff [of "columns df" cols] by blast
  have len: "length is = length cols" using "is" by (rule locs_length)
  from kin obtain p where p: "index_of cols k = Some p"
    using index_of_mem by fastforce
  have plt: "p < length is" using index_of_Some_D [OF p] len by simp
  define ik where "ik = is ! p"
  have ik: "index_of (columns df) k = Some ik"
    unfolding ik_def using "is" p by (rule locs_index)
  define proj :: "'a cell list \<Rightarrow> 'a cell list" where "proj = (\<lambda>r. map ((!) r) is)"
  define kept where "kept = keep_first (\<lambda>r. r ! ik) [] (rows df)"
  define ids where "ids = map (\<lambda>r. r ! ik) (rows df)"
  define out :: "'a frame" where "out = \<lparr>columns = cols, rows = map proj kept\<rparr>"
  have sel: "getitems df cols = Inr \<lparr>columns = cols, rows = map proj (rows df)\<rparr>"
    by (simp add: getitems_def "is" proj_def)
  have key: "proj r ! p = r ! ik" for r
    using plt by (simp add: proj_def ik_def)
  have dd: "drop_duplicates \<lparr>columns = cols, rows = map proj (rows df)\<rparr> k = Inr out"
    by (simp add: drop_duplicates_def p keep_first_map key out_def kept_def)
  have gk: "getitem df k = Inr ids"
    by (simp add: getitem_def ik ids_def)
  have uids: "unique ids = map (\<lambda>r. r ! ik) kept"
    by (simp add: unique_def ids_def kept_def map_keep_first)
  have gok: "getitem out k = Inr (unique ids)"
    by (simp add: getitem_def out_def p uids key)
  have rowsprop: "\<exists>i<length ids. index_of ids (unique ids ! j) = Some i
       \<and> (\<forall>c\<in>set cols. \<exists>s s'. getitem df c = Inr s \<and> getitem out c = Inr s' \<and> s' ! j = s ! i)"
    if j: "j < length (unique ids)" for j
  proof -
    have jk: "j < length kept" using j by (simp add: uids)
    then have "kept ! j \<in> set (keep_first (\<lambda>r. r ! ik) [] (rows df))"
      by (simp add: kept_def [symmetric])
    from keep_first_is_first [OF this] obtain i
      where i: "index_of (map (\<lambda>r. r ! ik) (rows df)) (kept ! j ! ik) = Some i"
        and ri: "rows df ! i = kept ! j"
      by blast
    have ilt: "i < length (rows df)" using index_of_Some_D [OF i] by simp
    have uj: "unique ids ! j = kept ! j ! ik" using jk by (simp add: uids)
    have i': "index_of ids (unique ids ! j) = Some i"
      unfolding uj using i by (simp add: ids_def)
    have cols: "\<exists>s s'. getitem df c = Inr s \<and> getitem out c = Inr s' \<and> s' ! j = s ! i"
      if c: "c \<in> set cols" for c
    proof -
      from c obtain q where q: "index_of cols c = Some q"
        using index_of_mem by fastforce
      have qlt: "q < length is" using index_of_Some_D [OF q] len by simp
      have cq: "index_of (columns df) c = Some (is ! q)" using "is" q by (rule locs_index)
      have s: "getitem df c = Inr (map (\<lambda>r. r ! (is ! q)) (rows df))"
        by (simp add: getitem_def cq)
      have s': "getitem out c = Inr (map (\<lambda>r. r ! q) (map proj kept))"
        by (simp add: getitem_def out_def q)
      have "map (\<lambda>r. r ! q) (map proj kept) ! j = map (\<lambda>r. r ! (is ! q)) (rows df) ! i"
        using jk ilt qlt ri by (simp add: proj_def)
      with s s' show ?thesis by blast
    qed
    from ilt i' cols show ?thesis by (auto simp: ids_def)
  qed
  have "columns out = cols" by (simp add: out_def)
  with sel dd gk gok rowsprop show ?thesis by blast
qed


lemma keyed_dimension:
  assumes dim: "(extract, cols, k) \<in> {(customers_df, customer_cols, ''Customer ID''),
                                   (products_df, product_cols, ''Product ID'')}"
    and present: "list_all (\<lambda>col. col \<in> set (columns df)) cols"
  shows "\<exists>out ids. extract df = Inr out \<and> columns out = cols
           \<and> getitem df k = Inr ids \<and> getitem out k = Inr (unique ids)
           \<and> (\<forall>j<length (unique ids). \<exists>i<length ids.
                  index_of ids (unique ids ! j) = Some i
                  \<and> (\<forall>c\<in>set cols. \<exists>s s'. getitem df c = Inr s \<and> getitem out c = Inr s'
                        \<and> s' ! j = s ! i))"
proof -
  have sub: "set cols \<subseteq> set (columns df)"
    using present by (auto simp: list_all_iff)
  have kin: "k \<in> set cols"
    using dim by (auto simp: customer_cols_def product_cols_def)
  from extract_core [OF sub kin] obtain sel out ids
    where sel: "getitems df cols = Inr sel" and dd: "drop_duplicates sel k = Inr out"
      and rest: "columns out = cols" "getitem df k = Inr ids" "getitem out k = Inr (unique ids)"
        "\<forall>j<length (unique ids). \<exists>i<length ids.
            index_of ids (unique ids ! j) = Some i
            \<and> (\<forall>c\<in>set cols. \<exists>s s'. getitem df c = Inr s \<and> getitem out c = Inr s'
                  \<and> s' ! j = s ! i)"
    by blast
  have "extract df = Inr out"
    using dim sel dd by (auto simp: customers_df_def products_df_def)
  with rest show ?thesis by blast
qed


lemma rows_update_same:
  "length rs = length s \<Longrightarrow> \<forall>r\<in>set rs. i < length r \<Longrightarrow>
   map (\<lambda>r. r ! i) (map (\<lambda>(r, v). r[i := v]) (zip rs s)) = s"
  by (induction rs s rule: list_induct2) auto

lemma rows_update_other:
  "length rs = length s \<Longrightarrow> i' \<noteq> i \<Longrightarrow>
   map (\<lambda>r. r ! i') (map (\<lambda>(r, v). r[i := v]) (zip rs s)) = map (\<lambda>r. r ! i') rs"
  by (induction rs s rule: list_induct2) auto

lemma rows_update_lengths:
  "length rs = length s \<Longrightarrow> \<forall>r\<in>set rs. length r = n \<Longrightarrow>
   \<forall>r\<in>set (map (\<lambda>(r, v). r[i := v]) (zip rs s)). length r = n"
  by (induction rs s rule: list_induct2) auto

lemma index_of_neq:
  "index_of xs a = Some i \<Longrightarrow> index_of xs b = Some j \<Longrightarrow> a \<noteq> b \<Longrightarrow> i \<noteq> j"
  using index_of_Some_D [of xs a i] index_of_Some_D [of xs b j] by auto

lemma getitem_length: "getitem df c = Inr s \<Longrightarrow> length s = length (rows df)"
  by (auto simp: getitem_def split: option.splits)

lemma setitem_columns:
  "c \<in> set (columns df) \<Longrightarrow> columns (setitem df c s) = columns df"
  using index_of_mem [of c "columns df"] by (auto simp: setitem_def)

lemma setitem_length:
  "c \<in> set (columns df) \<Longrightarrow> length s = length (rows df) \<Longrightarrow>
   length (rows (setitem df c s)) = length (rows df)"
  using index_of_mem [of c "columns df"] by (auto simp: setitem_def)

lemma setitem_other:
  assumes "c \<in> set (columns df)" "length s = length (rows df)" "c' \<noteq> c"
  shows "getitem (setitem df c s) c' = getitem df c'"
proof -
  from assms(1) obtain i where i: "index_of (columns df) c = Some i"
    using index_of_mem by fastforce
  show ?thesis
  proof (cases "index_of (columns df) c'")
    case None
    then show ?thesis by (simp add: getitem_def setitem_def i)
  next
    case (Some i')
    have "i' \<noteq> i" using index_of_neq [OF Some i assms(3)] .
    then show ?thesis
      using assms(2) by (simp add: getitem_def setitem_def i Some rows_update_other del: map_map)
  qed
qed

lemma setitem_same:
  assumes "c \<in> set (columns df)" "length s = length (rows df)"
    and "\<forall>r\<in>set (rows df). length r = length (columns df)"
  shows "getitem (setitem df c s) c = Inr s"
proof -
  from assms(1) obtain i where i: "index_of (columns df) c = Some i"
    using index_of_mem by fastforce
  have "i < length (columns df)" using index_of_Some_D [OF i] by simp
  with assms(3) have "\<forall>r\<in>set (rows df). i < length r" by simp
  then show ?thesis
    using assms(2) by (simp add: getitem_def setitem_def i rows_update_same del: map_map)
qed

lemma setitem_rect:
  assumes "c \<in> set (columns df)" "length s = length (rows df)"
    and "\<forall>r\<in>set (rows df). length r = length (columns df)"
  shows "\<forall>r\<in>set (rows (setitem df c s)). length r = length (columns (setitem df c s))"
proof -
  from assms(1) obtain i where i: "index_of (columns df) c = Some i"
    using index_of_mem by fastforce
  show ?thesis
    using rows_update_lengths [of "rows df" s "length (columns df)" i] assms(2,3)
    by (simp add: setitem_def i)
qed

lemma wf_frame_rect: "wf_frame df \<Longrightarrow> \<forall>r\<in>set (rows df). length r = length (columns df)"
  by (simp add: wf_frame_def list_all_iff)

lemma setitem_wf:
  assumes "wf_frame df" "c \<in> set (columns df)" "length s = length (rows df)"
  shows "wf_frame (setitem df c s)"
  using setitem_rect [OF assms(2,3) wf_frame_rect [OF assms(1)]] assms(1)
    setitem_columns [OF assms(2), of s]
  by (simp add: wf_frame_def list_all_iff)

text \<open>What the conversion of one date column does to a rectangular frame.\<close>

lemma convert_column_present:
  assumes wf: "wf_frame df" and c: "c \<in> set (columns df)" and s: "getitem df c = Inr s"
    and cv: "conv s = Inr s'" and l: "length s' = length s"
  shows "\<exists>df'. convert_column conv c df = Inr df' \<and> wf_frame df'
           \<and> columns df' = columns df \<and> length (rows df') = length (rows df)
           \<and> getitem df' c = Inr s'
           \<and> (\<forall>c'. c' \<noteq> c \<longrightarrow> getitem df' c' = getitem df c')"
proof -
  have len: "length s' = length (rows df)"
    using getitem_length [OF s] l by simp
  have "convert_column conv c df = Inr (setitem df c s')"
    by (simp add: convert_column_def c s cv)
  moreover have "wf_frame (setitem df c s')" using wf c len by (rule setitem_wf)
  moreover have "columns (setitem df c s') = columns df" using c by (rule setitem_columns)
  moreover have "length (rows (setitem df c s')) = length (rows df)"
    using c len by (rule setitem_length)
  moreover have "getitem (setitem df c s') c = Inr s'"
    using c len wf_frame_rect [OF wf] by (rule setitem_same)
  moreover have "\<forall>c'. c' \<noteq> c \<longrightarrow> getitem (setitem df c s') c' = getitem df c'"
    using setitem_other [OF c len] by blast
  ultimately show ?thesis by blast
qed

lemma convert_column_absent: "c \<notin> set (columns df) \<Longrightarrow> convert_column conv c df = Inr df"
  by (simp add: convert_column_def)

lemma convert_column_raises:
  "getitem df c = Inr s \<Longrightarrow> conv s = Inl x \<Longrightarrow> convert_column conv c df = Inl x"
  using getitem_absent [of c df] by (cases "c \<in> set (columns df)") (simp_all add: convert_column_def)

lemma convert_column_columns:
  "convert_column conv c df = Inr df' \<Longrightarrow> columns df' = columns df"
  by (auto simp: convert_column_def setitem_columns split: if_splits sum.splits)

text \<open>Loading a rectangular frame that has both date columns.\<close>

lemma convert_and_check_both:
  assumes wf: "wf_frame df0"
    and od: "getitem df0 ''Order Date'' = Inr so"
    and co: "conv so = Inr so'" and lo: "length so' = length so"
    and sd: "getitem df0 ''Ship Date'' = Inr ss"
    and cs: "conv ss = Inr ss'" and ls: "length ss' = length ss"
  shows "\<exists>df. convert_and_check conv df0 =
             Inr (if list_ex isnull so' \<or> list_ex isnull ss' then [NullDatesWarning] else [], df)
           \<and> wf_frame df \<and> columns df = columns df0 \<and> length (rows df) = length (rows df0)
           \<and> getitem df ''Order Date'' = Inr so'
           \<and> getitem df ''Ship Date'' = Inr ss'
           \<and> (\<forall>c. c \<noteq> ''Order Date'' \<and> c \<noteq> ''Ship Date'' \<longrightarrow> getitem df c = getitem df0 c)"
proof -
  have odin: "''Order Date'' \<in> set (columns df0)"
    using od getitem_absent [of "''Order Date''" df0] by auto
  have sdin: "''Ship Date'' \<in> set (columns df0)"
    using sd getitem_absent [of "''Ship Date''" df0] by auto
  from convert_column_present [where conv = conv, OF wf odin od co lo] obtain df1
    where df1: "convert_column conv ''Order Date'' df0 = Inr df1" "wf_frame df1"
      "columns df1 = columns df0" "length (rows df1) = length (rows df0)"
      "getitem df1 ''Order Date'' = Inr so'"
      "\<forall>c'. c' \<noteq> ''Order Date'' \<longrightarrow> getitem df1 c' = getitem df0 c'"
    by blast
  have sd1: "getitem df1 ''Ship Date'' = Inr ss" using df1(6) sd by simp
  have sdin1: "''Ship Date'' \<in> set (columns df1)" using sdin df1(3) by simp
  from convert_column_present [where conv = conv, OF df1(2) sdin1 sd1 cs ls] obtain df2
    where df2: "convert_column conv ''Ship Date'' df1 = Inr df2" "wf_frame df2"
      "columns df2 = columns df1" "length (rows df2) = length (rows df1)"
      "getitem df2 ''Ship Date'' = Inr ss'"
      "\<forall>c'. c' \<noteq> ''Ship Date'' \<longrightarrow> getitem df2 c' = getitem df1 c'"
    by blast
  have od2: "getitem df2 ''Order Date'' = Inr so'"
    using df2(6) df1(5) by simp
  have others: "\<forall>c. c \<noteq> ''Order Date'' \<and> c \<noteq> ''Ship Date'' \<longrightarrow> getitem df2 c = getitem df0 c"
    using df1(6) df2(6) by simp
  have nd: "null_dates df2 = Inr (list_ex isnull so' \<or> list_ex isnull ss')"
    by (simp add: null_dates_def od2 df2(5))
  have "convert_and_check conv df0 =
          Inr (if list_ex isnull so' \<or> list_ex isnull ss' then [NullDatesWarning] else [], df2)"
    by (simp add: convert_and_check_def df1(1) df2(1) nd)
  with df2(2,3,4,5) df1(3,4) od2 others show ?thesis by auto
qed

subsection \<open>The fact table\<close>

lemma missing_from_Nil: "missing_from df cols = [] \<longleftrightarrow> set cols \<subseteq> set (columns df)"
  by (auto simp: missing_from_def filter_empty_conv)

lemma getitems_present:
  assumes "set cols \<subseteq> set (columns df)"
  shows "\<exists>is. locs (columns df) cols = Some is
           \<and> getitems df cols = Inr \<lparr>columns = cols, rows = map (\<lambda>r. map ((!) r) is) (rows df)\<rparr>"
  using assms locs_Some_iff [of "columns df" cols] by (auto simp: getitems_def)

lemma getitems_getitem:
  assumes "getitems df cols = Inr sel" "c \<in> set cols"
  shows "getitem sel c = getitem df c"
proof -
  from assms(1) obtain "is" where "is": "locs (columns df) cols = Some is"
    and sel: "sel = \<lparr>columns = cols, rows = map (\<lambda>r. map ((!) r) is) (rows df)\<rparr>"
    by (auto simp: getitems_def split: option.splits)
  from assms(2) obtain q where q: "index_of cols c = Some q"
    using index_of_mem by fastforce
  have qlt: "q < length is" using index_of_Some_D [OF q] locs_length [OF "is"] by simp
  have cq: "index_of (columns df) c = Some (is ! q)" using "is" q by (rule locs_index)
  show ?thesis using qlt by (simp add: getitem_def sel q cq)
qed

lemma getitems_rect:
  assumes "getitems df cols = Inr sel"
  shows "columns sel = cols \<and> length (rows sel) = length (rows df)
         \<and> (\<forall>r\<in>set (rows sel). length r = length cols)"
proof -
  from assms obtain "is" where "is": "locs (columns df) cols = Some is"
    and sel: "sel = \<lparr>columns = cols, rows = map (\<lambda>r. map ((!) r) is) (rows df)\<rparr>"
    by (auto simp: getitems_def split: option.splits)
  show ?thesis using locs_length [OF "is"] by (auto simp: sel)
qed

lemma rename_fact_columns:
  "columns sel = fact_sales_df_columns \<Longrightarrow>
   columns (rename sel rename_map) = fact_sales_sql_columns"
  by (simp add: rename_def rename_map_def fact_sales_df_columns_def fact_sales_sql_columns_def)

lemma rename_rows: "rows (rename sel m) = rows sel"
  by (simp add: rename_def)

lemma index_of_zip:
  "length xs = length ys \<Longrightarrow> distinct xs \<Longrightarrow> distinct ys \<Longrightarrow> (c, c') \<in> set (zip xs ys) \<Longrightarrow>
   index_of ys c' = index_of xs c"
proof (induction xs ys rule: list_induct2)
  case Nil
  then show ?case by simp
next
  case (Cons x xs y ys)
  then show ?case by (auto dest: set_zip_leftD set_zip_rightD)
qed

lemma fact_columns_distinct:
  "distinct fact_sales_df_columns" "distinct fact_sales_sql_columns"
  "length fact_sales_df_columns = length fact_sales_sql_columns"
  by (simp_all add: fact_sales_df_columns_def fact_sales_sql_columns_def)

lemma fact_index:
  "(c, c') \<in> set rename_map \<Longrightarrow>
   index_of fact_sales_sql_columns c' = index_of fact_sales_df_columns c"
  unfolding rename_map_def
  using fact_columns_distinct(3,1,2) by (rule index_of_zip)

lemma getitem_rename_fact:
  assumes "columns sel = fact_sales_df_columns" "(c, c') \<in> set rename_map"
  shows "getitem (rename sel rename_map) c' = getitem sel c"
proof -
  have "c \<in> set fact_sales_df_columns"
    using assms(2) by (auto simp: rename_map_def dest: set_zip_leftD)
  then obtain i where i: "index_of fact_sales_df_columns c = Some i"
    using index_of_mem by fastforce
  have i': "index_of fact_sales_sql_columns c' = Some i"
    using fact_index [OF assms(2)] i by simp
  show ?thesis
    unfolding getitem_def rename_fact_columns [OF assms(1)] assms(1) rename_rows
    by (simp add: i i')
qed


lemma format_column_Inr:
  assumes "format_column f c = Inr f'"
  shows "\<exists>s'. f' = setitem f c s' \<and> length s' = length (rows f) \<and> c \<in> set (columns f)"
proof -
  from assms obtain s where s: "getitem f c = Inr s"
    by (auto simp: format_column_def split: sum.splits)
  then have cin: "c \<in> set (columns f)" using getitem_absent [of c f] by auto
  from assms s have "f' = setitem f c (map strftime_cell s)"
    by (auto simp: format_column_def dt_strftime_def split: if_splits)
  with getitem_length [OF s] cin show ?thesis by auto
qed

lemma format_column_frame:
  assumes "format_column f c = Inr f'"
  shows "columns f' = columns f \<and> length (rows f') = length (rows f)
         \<and> (\<forall>c'. c' \<noteq> c \<longrightarrow> getitem f' c' = getitem f c')"
proof -
  from format_column_Inr [OF assms] obtain s'
    where "f' = setitem f c s'" "length s' = length (rows f)" "c \<in> set (columns f)"
    by blast
  then show ?thesis
    using setitem_columns [of c f s'] setitem_length [of c f s'] setitem_other [of c f s']
    by auto
qed

lemma format_dates_frame:
  assumes "format_dates f = (ws, f')"
  shows "columns f' = columns f \<and> length (rows f') = length (rows f)
         \<and> (\<forall>c. c \<noteq> ''OrderDate'' \<and> c \<noteq> ''ShipDate'' \<longrightarrow> getitem f' c = getitem f c)"
proof (cases "format_column f ''OrderDate''")
  case (Inl x)
  with assms show ?thesis by (simp add: format_dates_def)
next
  case (Inr f1)
  note f1 = format_column_frame [OF Inr]
  show ?thesis
  proof (cases "format_column f1 ''ShipDate''")
    case (Inl x)
    with assms Inr f1 show ?thesis by (auto simp: format_dates_def)
  next
    case f2: (Inr f2)
    from assms Inr f2 have "f' = f2" by (simp add: format_dates_def)
    with f1 format_column_frame [OF f2] show ?thesis by auto
  qed
qed

text \<open>The fact table of any frame that has the fourteen columns.\<close>

lemma fact_sales_df_frame:
  assumes "missing_from df fact_sales_df_columns = []"
  shows "\<exists>ws out. fact_sales_df df = Inr (ws, out)
           \<and> length (rows out) = length (rows df)
           \<and> columns out = fact_sales_sql_columns
           \<and> (\<forall>(c, c') \<in> set rename_map. c' \<noteq> ''OrderDate'' \<and> c' \<noteq> ''ShipDate''
                 \<longrightarrow> getitem out c' = getitem df c)"
proof -
  have sub: "set fact_sales_df_columns \<subseteq> set (columns df)"
    using assms by (simp add: missing_from_Nil)
  from getitems_present [OF sub] obtain sel
    where sel: "getitems df fact_sales_df_columns = Inr sel" by blast
  note rect = getitems_rect [OF sel]
  obtain ws out where fd: "format_dates (rename sel rename_map) = (ws, out)"
    by (cases "format_dates (rename sel rename_map)")
  note fr = format_dates_frame [OF fd]
  have res: "fact_sales_df df = Inr (ws, out)"
    by (simp add: fact_sales_df_def sel fd)
  have len: "length (rows out) = length (rows df)"
    using fr rect by (simp add: rename_rows)
  have cols: "columns out = fact_sales_sql_columns"
    using fr rename_fact_columns [of sel] rect by simp
  have cells: "getitem out c' = getitem df c"
    if "(c, c') \<in> set rename_map" "c' \<noteq> ''OrderDate''" "c' \<noteq> ''ShipDate''" for c c'
  proof -
    have cin: "c \<in> set fact_sales_df_columns"
      using that(1) by (auto simp: rename_map_def dest: set_zip_leftD)
    have "getitem out c' = getitem (rename sel rename_map) c'" using fr that(2,3) by simp
    also have "\<dots> = getitem sel c" using rect that(1) by (simp add: getitem_rename_fact)
    also have "\<dots> = getitem df c" using sel cin by (rule getitems_getitem)
    finally show ?thesis .
  qed
  from res len cols cells show ?thesis by blast
qed


subsection \<open>Formatting and the loaded fact table\<close>






subsection \<open>The sections and the run\<close>

lemma list_all_missing_from:
  "list_all (\<lambda>col. col \<in> set (columns df)) cols \<longleftrightarrow> missing_from df cols = []"
  by (auto simp: missing_from_def filter_empty_conv list_all_iff)

lemma missing_from_set: "set (missing_from df cols) = set cols - set (columns df)"
  by (auto simp: missing_from_def)


lemma create_customers_missing:
  assumes "missing_from df customer_cols \<noteq> []"
  shows "create_customers e df =
           ([Creating ''customers.csv'', ColumnsMissing ''customers.csv''], [], None)"
  using assms by (simp add: create_customers_def list_all_missing_from)


lemma create_products_missing:
  assumes "missing_from df product_cols \<noteq> []"
  shows "create_products e df =
           ([Creating ''products.csv'', ColumnsMissing ''products.csv''], [], None)"
  using assms by (simp add: create_products_def list_all_missing_from)


lemma create_ship_modes_missing:
  assumes "ship_mode_col \<notin> set (columns df)"
  shows "create_ship_modes e df = ([Creating ''DimShipMode.csv'', ShipModeMissing], [], None)"
  using assms by (simp add: create_ship_modes_def)


lemma create_fact_sales_missing:
  assumes "missing_from df fact_sales_df_columns \<noteq> []"
  shows "create_fact_sales e df =
           ([Creating ''FactSales.csv'', FactColumnsMissing (missing_from df fact_sales_df_columns),
             AvailableColumns (columns df)], [], None)"
  using assms by (simp add: create_fact_sales_def)





lemma run_not_loaded:
  assumes "ensure_output_folder e = (m0, True)" "load_data e = (m1, None)"
  shows "run e = \<lparr>printed = m0 @ m1, files = [], status = Exited\<rparr>"
  by (simp add: run_def assms)

lemma ensure_output_folder_ok:
  "path_exists e \<or> makedirs_ok e \<Longrightarrow>
   ensure_output_folder e = (if path_exists e then [] else [FolderCreated], True)"
  by (auto simp: ensure_output_folder_def)

text \<open>Loading a frame that lacks a date column.\<close>

lemma convert_and_check_no_order_date:
  assumes "''Order Date'' \<notin> set (columns df0)"
  shows "\<exists>x. convert_and_check conv df0 = Inl x"
proof -
  have c1: "convert_column conv ''Order Date'' df0 = Inr df0"
    using assms by (rule convert_column_absent)
  show ?thesis
  proof (cases "convert_column conv ''Ship Date'' df0")
    case (Inl x)
    then show ?thesis by (simp add: convert_and_check_def c1)
  next
    case (Inr df2)
    have "columns df2 = columns df0" using Inr by (rule convert_column_columns)
    then have "getitem df2 ''Order Date'' = Inl (KeyError [''Order Date''])"
      using assms by (intro getitem_absent) simp
    then have "null_dates df2 = Inl (KeyError [''Order Date''])"
      by (simp add: null_dates_def)
    then show ?thesis by (simp add: convert_and_check_def c1 Inr)
  qed
qed

lemma convert_and_check_no_ship_date:
  assumes wf: "wf_frame df0" and sd: "''Ship Date'' \<notin> set (columns df0)"
    and od: "getitem df0 ''Order Date'' = Inr so"
    and co: "conv so = Inr so'" and lo: "length so' = length so"
  shows "\<exists>df. wf_frame df \<and> columns df = columns df0 \<and> length (rows df) = length (rows df0)
           \<and> getitem df ''Order Date'' = Inr so'
           \<and> (\<forall>c. c \<noteq> ''Order Date'' \<longrightarrow> getitem df c = getitem df0 c)
           \<and> convert_and_check conv df0 =
               (if list_ex isnull so' then Inr ([NullDatesWarning], df)
                else Inl (KeyError [''Ship Date'']))"
proof -
  have odin: "''Order Date'' \<in> set (columns df0)"
    using od getitem_absent [of "''Order Date''" df0] by auto
  from convert_column_present [where conv = conv, OF wf odin od co lo] obtain df1
    where df1: "convert_column conv ''Order Date'' df0 = Inr df1" "wf_frame df1"
      "columns df1 = columns df0" "length (rows df1) = length (rows df0)"
      "getitem df1 ''Order Date'' = Inr so'"
      "\<forall>c'. c' \<noteq> ''Order Date'' \<longrightarrow> getitem df1 c' = getitem df0 c'"
    by blast
  have sd1: "''Ship Date'' \<notin> set (columns df1)" using sd df1(3) by simp
  have c2: "convert_column conv ''Ship Date'' df1 = Inr df1"
    using sd1 by (rule convert_column_absent)
  have g: "getitem df1 ''Ship Date'' = Inl (KeyError [''Ship Date''])"
    using sd1 by (rule getitem_absent)
  have "convert_and_check conv df0 =
          (if list_ex isnull so' then Inr ([NullDatesWarning], df1)
           else Inl (KeyError [''Ship Date'']))"
    by (simp add: convert_and_check_def df1(1) c2 null_dates_def df1(5) g)
  with df1 show ?thesis by blast
qed

lemma convert_and_check_raises:
  assumes "getitem df0 ''Order Date'' = Inr so" "conv so = Inl x"
  shows "convert_and_check conv df0 = Inl x"
  using convert_column_raises [where conv = conv, OF assms] by (simp add: convert_and_check_def)

lemma load_data_exits:
  assumes "read_csv e = Inr df0" "convert_and_check (to_datetime e) df0 = Inl x"
  shows "load_data e = ([Loading, LoadedRows (length (rows df0)), UnexpectedLoadError x], None)"
  by (simp add: load_data_def assms)

text \<open>The definitions that evaluate the script on a concrete file.\<close>

lemmas script_defs = load_data_def convert_and_check_def convert_column_def getitem_def
  setitem_def null_dates_def isnull_def run_def ensure_output_folder_def sections_def
  create_customers_def create_products_def create_ship_modes_def create_fact_sales_def
  customers_df_def products_df_def ship_modes_df_def fact_sales_df_def getitems_def
  drop_duplicates_def unique_def dropna_def rename_def rename_map_def format_dates_def
  format_column_def dt_strftime_def is_datetime_def strftime_cell_def strftime_ymd_def
  zfill_def digits.simps missing_from_def customer_cols_def product_cols_def ship_mode_col_def
  fact_sales_df_columns_def fact_sales_sql_columns_def saved_def save_def format_handler_def
  wf_frame_def

lemmas example_defs = example_env_def example_to_datetime_def example_cell_def
  pandas2_to_datetime_def fact_example_def loaded_example_def dates_example_def
  bad_dates_example_def no_ship_date_example_def clean_no_ship_date_example_def
  store_rows_def no_subcategory_example_def no_category_example_def offsets_example_def
  offsets_loaded_def no_subcategory_loaded_def

section \<open>The claims\<close>

text \<open>
  Claim C1. For the customer dimension (columns \<open>customer_cols\<close>, key \<open>Customer ID\<close>)
  and the product dimension (columns \<open>product_cols\<close>, key \<open>Product ID\<close>), when the
  source frame has all the columns of the dimension: the extraction returns a frame with
  exactly these columns; no key value occurs twice in its key column; its key values are
  exactly the key values of the source; and its row \<open>j\<close> agrees, on every column of the
  dimension, with the source row \<open>i\<close> that is the first one bearing that key.
\<close>

theorem keyed_dimension_first_rows:
  assumes "(extract, cols, k) \<in> {(customers_df, customer_cols, ''Customer ID''),
                              (products_df, product_cols, ''Product ID'')}"
    and "list_all (\<lambda>col. col \<in> set (columns df)) cols"
  shows "\<exists>out ids ids'. extract df = Inr out \<and> columns out = cols
           \<and> getitem df k = Inr ids \<and> getitem out k = Inr ids'
           \<and> distinct ids' \<and> set ids' = set ids
           \<and> (\<forall>j<length ids'. \<exists>i<length ids.
                  index_of ids (ids' ! j) = Some i
                  \<and> (\<forall>c\<in>set cols. \<exists>s s'. getitem df c = Inr s \<and> getitem out c = Inr s'
                        \<and> s' ! j = s ! i))"
  using keyed_dimension [OF assms] unique_distinct unique_set by blast

theorem keyed_dimension_first_rows_witness:
  "list_all (\<lambda>col. col \<in> set (columns customers_example)) customer_cols
   \<and> customers_df customers_example = Inr \<lparr>columns = customer_cols,
       rows = [
         [Str ''C1'', Str ''Alice'', Str ''Consumer'', Str ''US'', Str ''Austin'', Str ''Texas'', Num 73301, Str ''Central''],
         [Str ''C2'', Str ''Bob'', Str ''Corporate'', Str ''US'', Str ''Boston'', Str ''Massachusetts'', Num 2108, Str ''East''],
         [NaN, Str ''Carol'', Str ''Consumer'', Str ''US'', Str ''Denver'', Str ''Colorado'', Num 80014, Str ''West'']]\<rparr>
   \<and> list_all (\<lambda>col. col \<in> set (columns products_example)) product_cols
   \<and> products_df products_example = Inr \<lparr>columns = product_cols,
       rows = [[Str ''P1'', Str ''Stool'', Str ''Furniture'', Str ''Chairs''],
               [Str ''P2'', Str ''Handset'', Str ''Technology'', Str ''Phones'']]\<rparr>"
  using keyed_dimension_first_rows [of customers_df customer_cols "''Customer ID''" customers_example]
    keyed_dimension_first_rows [of products_df product_cols "''Product ID''" products_example]
  by (simp add: customers_example_def products_example_def customer_cols_def product_cols_def
      customers_df_def products_df_def getitems_def drop_duplicates_def)

text \<open>
  Claim C2. When the frame has the fourteen source columns of the fact table, the fact
  frame has as many rows as the frame (nothing is deduplicated) and its columns are the
  fourteen target names, in order: \<open>Order ID\<close>, \<open>Customer ID\<close>, \<open>Product ID\<close>,
  \<open>Order Date\<close>, \<open>Ship Date\<close> and \<open>Ship Mode\<close> lose their space and the other eight
  names are unchanged. Every column other than the two date columns holds the values of
  its source column, row by row.
\<close>

theorem fact_table_rows_and_columns:
  assumes "missing_from df fact_sales_df_columns = []"
  shows "\<exists>ws out. fact_sales_df df = Inr (ws, out)
           \<and> length (rows out) = length (rows df)
           \<and> columns out = [''OrderID'', ''CustomerID'', ''ProductID'', ''OrderDate'',
                ''ShipDate'', ''ShipMode'', ''Sales'', ''Order_Year'', ''Order_Month'',
                ''Order_Day'', ''Order_Weekday'', ''Shipping_Delay'', ''Log_Sales'',
                ''Scaled_Sales'']
           \<and> rename_map = [(''Order ID'', ''OrderID''), (''Customer ID'', ''CustomerID''),
                (''Product ID'', ''ProductID''), (''Order Date'', ''OrderDate''),
                (''Ship Date'', ''ShipDate''), (''Ship Mode'', ''ShipMode''),
                (''Sales'', ''Sales''), (''Order_Year'', ''Order_Year''),
                (''Order_Month'', ''Order_Month''), (''Order_Day'', ''Order_Day''),
                (''Order_Weekday'', ''Order_Weekday''), (''Shipping_Delay'', ''Shipping_Delay''),
                (''Log_Sales'', ''Log_Sales''), (''Scaled_Sales'', ''Scaled_Sales'')]
           \<and> columns out = map snd rename_map
           \<and> (\<forall>(c, c') \<in> set rename_map. c' \<noteq> ''OrderDate'' \<and> c' \<noteq> ''ShipDate''
                 \<longrightarrow> getitem out c' = getitem df c)"
proof -
  have m: "rename_map = [(''Order ID'', ''OrderID''), (''Customer ID'', ''CustomerID''),
                (''Product ID'', ''ProductID''), (''Order Date'', ''OrderDate''),
                (''Ship Date'', ''ShipDate''), (''Ship Mode'', ''ShipMode''),
                (''Sales'', ''Sales''), (''Order_Year'', ''Order_Year''),
                (''Order_Month'', ''Order_Month''), (''Order_Day'', ''Order_Day''),
                (''Order_Weekday'', ''Order_Weekday''), (''Shipping_Delay'', ''Shipping_Delay''),
                (''Log_Sales'', ''Log_Sales''), (''Scaled_Sales'', ''Scaled_Sales'')]"
    by (simp add: rename_map_def fact_sales_df_columns_def fact_sales_sql_columns_def)
  have s: "map snd rename_map = fact_sales_sql_columns"
    using fact_columns_distinct(3) by (simp add: rename_map_def)
  from fact_sales_df_frame [OF assms] obtain ws out
    where "fact_sales_df df = Inr (ws, out)" "length (rows out) = length (rows df)"
      "columns out = fact_sales_sql_columns"
      "\<forall>(c, c') \<in> set rename_map. c' \<noteq> ''OrderDate'' \<and> c' \<noteq> ''ShipDate''
          \<longrightarrow> getitem out c' = getitem df c"
    by blast
  with m s show ?thesis
    unfolding fact_sales_sql_columns_def by (intro exI [of _ ws] exI [of _ out]) simp
qed

theorem fact_table_rows_and_columns_witness:
  "missing_from loaded_example fact_sales_df_columns = []
   \<and> fact_sales_df loaded_example = Inr ([], \<lparr>columns = fact_sales_sql_columns,
       rows = [
         [Str ''O1'', Str ''C1'', Str ''P1'', Str ''2023-03-05'', Str ''2023-03-09'',
          Str ''Standard'', Num 120, Num 2023, Num 3, Num 5, Num 6, Num 4, Num 5, Num 1],
         [Str ''O1'', Str ''C1'', Str ''P2'', Str ''2023-03-05'', NaN,
          Str ''Standard'', Num 40, Num 2023, Num 3, Num 5, Num 6, NaN, Num 4, Num 0]]\<rparr>)"
  using fact_table_rows_and_columns [of loaded_example]
  by (simp add: loaded_example_def fact_example_def missing_from_def fact_sales_df_columns_def
      fact_sales_sql_columns_def fact_sales_df_def getitems_def rename_def rename_map_def
      format_dates_def format_column_def getitem_def dt_strftime_def is_datetime_def
      setitem_def strftime_cell_def strftime_ymd_def zfill_def digits.simps)




text \<open>
  Claim C4. When the frame has a \<open>Ship Mode\<close> column, the ship mode dimension has the
  single column \<open>Ship Mode\<close> and its values are exactly the distinct non-null values of
  the source column, in the order of their first appearance: they are the distinct values
  of the non-null part of the column, no value occurs twice, a value is in the output
  exactly when it is a non-null value of the source, and two non-null values keep the
  order of their first occurrences. The column \<open>[Standard, Standard, Express, null]\<close> gives
  \<open>[Standard, Express]\<close>.
\<close>

theorem ship_modes_distinct_non_null:
  assumes "ship_mode_col \<in> set (columns df)"
  shows "\<exists>s vs. getitem df ship_mode_col = Inr s
           \<and> ship_modes_df df = Inr \<lparr>columns = [ship_mode_col], rows = map (\<lambda>v. [v]) vs\<rparr>
           \<and> vs = unique (filter (\<lambda>v. \<not> isnull v) s)
           \<and> distinct vs
           \<and> set vs = {v \<in> set s. \<not> isnull v}
           \<and> (\<forall>a b i j. index_of s a = Some i \<and> index_of s b = Some j \<and> i < j
                  \<and> \<not> isnull a \<and> \<not> isnull b
                \<longrightarrow> (\<exists>i' j'. index_of vs a = Some i' \<and> index_of vs b = Some j' \<and> i' < j'))"
proof -
  from getitem_present [OF assms] obtain s where s: "getitem df ship_mode_col = Inr s"
    by blast
  define vs where "vs = filter (\<lambda>v. \<not> isnull v) (unique s)"
  have out: "ship_modes_df df = Inr \<lparr>columns = [ship_mode_col], rows = map (\<lambda>v. [v]) vs\<rparr>"
    by (simp add: ship_modes_df_def s dropna_single vs_def)
  have eq: "vs = unique (filter (\<lambda>v. \<not> isnull v) s)"
    by (simp add: vs_def unique_filter)
  have d: "distinct vs"
    by (simp add: vs_def unique_distinct)
  have st: "set vs = {v \<in> set s. \<not> isnull v}"
    by (auto simp: vs_def unique_set)
  have ord: "\<exists>i' j'. index_of vs a = Some i' \<and> index_of vs b = Some j' \<and> i' < j'"
    if "index_of s a = Some i" "index_of s b = Some j" "i < j" "\<not> isnull a" "\<not> isnull b"
    for a b i j
  proof -
    from unique_order [OF that(1,2,3)] obtain i1 j1
      where "index_of (unique s) a = Some i1" "index_of (unique s) b = Some j1" "i1 < j1"
      by blast
    from filter_order [of "unique s" a i1 b j1 "\<lambda>v. \<not> isnull v", OF this that(4,5)]
    show ?thesis by (simp add: vs_def)
  qed
  from s out eq d st ord show ?thesis by blast
qed

theorem ship_modes_distinct_non_null_witness:
  "ship_mode_col \<in> set (columns ship_example)
   \<and> ship_modes_df ship_example =
       Inr \<lparr>columns = [''Ship Mode''], rows = [[Str ''Standard''], [Str ''Express'']]\<rparr>"
  using ship_modes_distinct_non_null [of ship_example]
  by (simp add: ship_example_def ship_mode_col_def getitem_def unique_def isnull_def)

text \<open>
  Claim C5, amended. When a frame lacks a column that a table requires, the table is not
  built and no file is written for it; the script prints a notice and goes on. The outcome
  does not depend on the rows of the frame: the test on the columns comes first. The notice
  of the fact table lists the missing columns, which are exactly the required columns that
  the frame does not have, in the order of the requirement. The notice of the ship mode
  dimension is about its only column, \<open>Ship Mode\<close>. The notices of the customer dimension
  and of the product dimension are fixed texts: they say that some required columns are
  missing and do not name them.

  As the claim is written it fails for the two keyed dimensions: a file without
  \<open>Sub-Category\<close> and a file without \<open>Category\<close> get the same notice.
\<close>

theorem missing_columns_stop_table:
  "(missing_from df customer_cols \<noteq> [] \<longrightarrow>
      (\<forall>rs. create_customers e (df\<lparr>rows := rs\<rparr>) =
         ([Creating ''customers.csv'', ColumnsMissing ''customers.csv''], [], None)))
   \<and> (missing_from df product_cols \<noteq> [] \<longrightarrow>
      (\<forall>rs. create_products e (df\<lparr>rows := rs\<rparr>) =
         ([Creating ''products.csv'', ColumnsMissing ''products.csv''], [], None)))
   \<and> (ship_mode_col \<notin> set (columns df) \<longrightarrow>
      (\<forall>rs. create_ship_modes e (df\<lparr>rows := rs\<rparr>) =
         ([Creating ''DimShipMode.csv'', ShipModeMissing], [], None)))
   \<and> (missing_from df fact_sales_df_columns \<noteq> [] \<longrightarrow>
      (\<forall>rs. create_fact_sales e (df\<lparr>rows := rs\<rparr>) =
         ([Creating ''FactSales.csv'', FactColumnsMissing (missing_from df fact_sales_df_columns),
           AvailableColumns (columns df)], [], None)))
   \<and> set (missing_from df fact_sales_df_columns) = set fact_sales_df_columns - set (columns df)
   \<and> missing_from df fact_sales_df_columns
       = filter (\<lambda>c. c \<notin> set (columns df)) fact_sales_df_columns"
proof -
  have m: "missing_from (df\<lparr>rows := rs\<rparr>) cols = missing_from df cols" for rs cols
    by (simp add: missing_from_def)
  have c: "columns (df\<lparr>rows := rs\<rparr>) = columns df" for rs
    by simp
  have 1: "create_customers e (df\<lparr>rows := rs\<rparr>) =
         ([Creating ''customers.csv'', ColumnsMissing ''customers.csv''], [], None)"
    if "missing_from df customer_cols \<noteq> []" for rs
    using that by (intro create_customers_missing) (simp add: m)
  have 2: "create_products e (df\<lparr>rows := rs\<rparr>) =
         ([Creating ''products.csv'', ColumnsMissing ''products.csv''], [], None)"
    if "missing_from df product_cols \<noteq> []" for rs
    using that by (intro create_products_missing) (simp add: m)
  have 3: "create_ship_modes e (df\<lparr>rows := rs\<rparr>) =
         ([Creating ''DimShipMode.csv'', ShipModeMissing], [], None)"
    if "ship_mode_col \<notin> set (columns df)" for rs
    using that by (intro create_ship_modes_missing) simp
  have 4: "create_fact_sales e (df\<lparr>rows := rs\<rparr>) =
         ([Creating ''FactSales.csv'', FactColumnsMissing (missing_from df fact_sales_df_columns),
           AvailableColumns (columns df)], [], None)"
    if "missing_from df fact_sales_df_columns \<noteq> []" for rs
    using that create_fact_sales_missing [of "df\<lparr>rows := rs\<rparr>" e] by (simp add: m)
  have 5: "missing_from df fact_sales_df_columns
       = filter (\<lambda>c. c \<notin> set (columns df)) fact_sales_df_columns"
    by (simp add: missing_from_def)
  from 1 2 3 4 5 missing_from_set [of df fact_sales_df_columns] show ?thesis by blast
qed

theorem missing_columns_stop_table_witness:
  "missing_from dates_example customer_cols \<noteq> []
   \<and> create_customers (example_env dates_example) dates_example =
       ([Creating ''customers.csv'', ColumnsMissing ''customers.csv''], [], None)
   \<and> missing_from dates_example product_cols \<noteq> []
   \<and> create_products (example_env dates_example) dates_example =
       ([Creating ''products.csv'', ColumnsMissing ''products.csv''], [], None)
   \<and> ship_mode_col \<notin> set (columns dates_example)
   \<and> create_ship_modes (example_env dates_example) dates_example =
       ([Creating ''DimShipMode.csv'', ShipModeMissing], [], None)
   \<and> missing_from dates_example fact_sales_df_columns \<noteq> []
   \<and> create_fact_sales (example_env dates_example) dates_example =
       ([Creating ''FactSales.csv'',
         FactColumnsMissing [''Customer ID'', ''Product ID'', ''Ship Mode'', ''Sales'',
           ''Order_Year'', ''Order_Month'', ''Order_Day'', ''Order_Weekday'', ''Shipping_Delay'',
           ''Log_Sales'', ''Scaled_Sales''],
         AvailableColumns [''Order ID'', ''Order Date'', ''Ship Date'']], [], None)"
  using missing_columns_stop_table [of dates_example "example_env dates_example"]
  by (simp add: script_defs example_defs)

text \<open>
  The product notice is the same for a file that lacks \<open>Sub-Category\<close> and for a file
  that lacks \<open>Category\<close>.
\<close>

theorem product_notice_names_no_column:
  "missing_from no_subcategory_example product_cols = [''Sub-Category'']
   \<and> create_products (example_env no_subcategory_example) no_subcategory_example =
       ([Creating ''products.csv'', ColumnsMissing ''products.csv''], [], None)
   \<and> missing_from no_category_example product_cols = [''Category'']
   \<and> create_products (example_env no_category_example) no_category_example =
       ([Creating ''products.csv'', ColumnsMissing ''products.csv''], [], None)"
  by (simp add: script_defs example_defs)




text \<open>
  Claim C7. The keyed extractions keep the order of first occurrences: when the first
  occurrence of the key \<open>k1\<close> in the source precedes the first occurrence of \<open>k2\<close>, the
  output row of \<open>k1\<close> precedes the output row of \<open>k2\<close>.
\<close>

theorem keyed_dimension_order:
  assumes "(extract, cols, k) \<in> {(customers_df, customer_cols, ''Customer ID''),
                              (products_df, product_cols, ''Product ID'')}"
    and "list_all (\<lambda>col. col \<in> set (columns df)) cols"
  shows "\<exists>out ids ids'. extract df = Inr out
           \<and> getitem df k = Inr ids \<and> getitem out k = Inr ids'
           \<and> (\<forall>k1 k2 i1 i2. index_of ids k1 = Some i1 \<and> index_of ids k2 = Some i2 \<and> i1 < i2
                \<longrightarrow> (\<exists>j1 j2. index_of ids' k1 = Some j1 \<and> index_of ids' k2 = Some j2
                       \<and> j1 < j2))"
proof -
  from keyed_dimension [OF assms] obtain out ids
    where "extract df = Inr out" "getitem df k = Inr ids" "getitem out k = Inr (unique ids)"
    by blast
  then show ?thesis using unique_order by blast
qed

theorem keyed_dimension_order_witness:
  "list_all (\<lambda>col. col \<in> set (columns customers_example)) customer_cols
   \<and> getitem customers_example ''Customer ID'' = Inr [Str ''C1'', Str ''C2'', Str ''C1'', NaN, NaN]
   \<and> (\<exists>out. customers_df customers_example = Inr out
         \<and> getitem out ''Customer ID'' = Inr [Str ''C1'', Str ''C2'', NaN])"
  using keyed_dimension_order [of customers_df customer_cols "''Customer ID''" customers_example]
  by (simp add: customers_example_def customer_cols_def
      customers_df_def getitems_def drop_duplicates_def getitem_def)

text \<open>
  Claim C8, amended. Take a rectangular source frame with both date columns, and let
  \<open>pd.to_datetime\<close> return a column for each of them (with \<open>errors='coerce'\<close> a value that
  does not parse is \<open>NaT\<close> in that column). Then loading does not exit: it returns a frame
  with the same columns and as many rows as the file, whose date columns are the converted
  ones and whose other columns are unchanged. It prints one warning when a value of either
  date column is missing after the conversion, and none otherwise. The warning is a fixed
  text: it gives no count of the rows with a missing date.

  As the claim is written it fails in that point: a file with one missing date and a file
  with five get the same messages.
\<close>

theorem load_keeps_rows_and_warns:
  assumes "read_csv e = Inr df0" and "wf_frame df0"
    and "getitem df0 ''Order Date'' = Inr so" and "to_datetime e so = Inr so'"
    and "length so' = length so"
    and "getitem df0 ''Ship Date'' = Inr ss" and "to_datetime e ss = Inr ss'"
    and "length ss' = length ss"
  shows "\<exists>df. load_data e =
             ([Loading, LoadedRows (length (rows df0))]
                @ (if list_ex isnull so' \<or> list_ex isnull ss' then [NullDatesWarning] else []),
              Some df)
           \<and> columns df = columns df0 \<and> length (rows df) = length (rows df0)
           \<and> getitem df ''Order Date'' = Inr so'
           \<and> getitem df ''Ship Date'' = Inr ss'
           \<and> (\<forall>c. c \<noteq> ''Order Date'' \<and> c \<noteq> ''Ship Date'' \<longrightarrow> getitem df c = getitem df0 c)"
proof -
  from convert_and_check_both [where conv = "to_datetime e", OF assms(2-8)] obtain df
    where df: "convert_and_check (to_datetime e) df0 =
             Inr (if list_ex isnull so' \<or> list_ex isnull ss' then [NullDatesWarning] else [], df)"
      and rest: "columns df = columns df0" "length (rows df) = length (rows df0)"
        "getitem df ''Order Date'' = Inr so'"
        "getitem df ''Ship Date'' = Inr ss'"
        "\<forall>c. c \<noteq> ''Order Date'' \<and> c \<noteq> ''Ship Date'' \<longrightarrow> getitem df c = getitem df0 c"
    by blast
  have "load_data e =
             ([Loading, LoadedRows (length (rows df0))]
                @ (if list_ex isnull so' \<or> list_ex isnull ss' then [NullDatesWarning] else []),
              Some df)"
    by (simp add: load_data_def assms(1) df)
  with rest show ?thesis by blast
qed

theorem load_keeps_rows_and_warns_witness:
  "read_csv (example_env bad_dates_example) = Inr bad_dates_example
   \<and> wf_frame bad_dates_example
   \<and> getitem bad_dates_example ''Order Date'' = Inr [Str ''2023-03-05'', Str ''05/03/23'', Num 5]
   \<and> to_datetime (example_env bad_dates_example) [Str ''2023-03-05'', Str ''05/03/23'', Num 5]
       = Inr [Timestamp \<lparr>year = 2023, month = 3, day = 5, nanos = 0\<rparr>, NaT, NaT]
   \<and> getitem bad_dates_example ''Ship Date'' = Inr [NaN, Str ''soon'', Str ''later'']
   \<and> to_datetime (example_env bad_dates_example) [NaN, Str ''soon'', Str ''later'']
       = Inr [NaT, NaT, NaT]
   \<and> load_data (example_env bad_dates_example) =
       ([Loading, LoadedRows 3, NullDatesWarning],
        Some \<lparr>columns = [''Order ID'', ''Order Date'', ''Ship Date''],
          rows = [[Str ''O1'', Timestamp \<lparr>year = 2023, month = 3, day = 5, nanos = 0\<rparr>, NaT],
                  [Str ''O2'', NaT, NaT],
                  [Str ''O3'', NaT, NaT]]\<rparr>)"
  using load_keeps_rows_and_warns [of "example_env bad_dates_example" bad_dates_example
      "[Str ''2023-03-05'', Str ''05/03/23'', Num 5]"
      "[Timestamp \<lparr>year = 2023, month = 3, day = 5, nanos = 0\<rparr>, NaT, NaT]"
      "[NaN, Str ''soon'', Str ''later'']" "[NaT, NaT, NaT]"]
  by (simp add: script_defs example_defs)

text \<open>
  The messages of loading are the same for a file with one missing date and for a file
  with five missing dates in three rows.
\<close>

theorem warning_without_counts:
  "load_data (example_env dates_example) =
     ([Loading, LoadedRows 3, NullDatesWarning],
      Some \<lparr>columns = [''Order ID'', ''Order Date'', ''Ship Date''],
        rows = [[Str ''O1'', Timestamp \<lparr>year = 2023, month = 3, day = 5, nanos = 0\<rparr>,
                 Timestamp \<lparr>year = 2023, month = 3, day = 9, nanos = 0\<rparr>],
                [Str ''O2'', Timestamp \<lparr>year = 2023, month = 3, day = 5, nanos = 0\<rparr>, NaT],
                [Str ''O3'', Timestamp \<lparr>year = 2023, month = 3, day = 5, nanos = 0\<rparr>,
                 Timestamp \<lparr>year = 2023, month = 3, day = 9, nanos = 0\<rparr>]]\<rparr>)
   \<and> load_data (example_env bad_dates_example) =
     ([Loading, LoadedRows 3, NullDatesWarning],
      Some \<lparr>columns = [''Order ID'', ''Order Date'', ''Ship Date''],
        rows = [[Str ''O1'', Timestamp \<lparr>year = 2023, month = 3, day = 5, nanos = 0\<rparr>, NaT],
                [Str ''O2'', NaT, NaT],
                [Str ''O3'', NaT, NaT]]\<rparr>)"
  by (simp add: script_defs example_defs)

text \<open>
  Claim C9, amended. Let the output folder be there and the file load into a rectangular
  frame. When the frame has no \<open>Order Date\<close> column, the run ends during loading: the
  handler of line 49 prints the error and exits, and no table is attempted. When the frame
  has \<open>Order Date\<close> but no \<open>Ship Date\<close> column, the run ends in the same way provided no
  value of \<open>Order Date\<close> is missing after the conversion: the test of line 42 reads
  \<open>Ship Date\<close> only when the left operand of its \<open>or\<close> is false.

  As the claim is written it fails: for a file without \<open>Ship Date\<close> in which an order date
  does not parse, loading prints its warning and the run goes on to the four tables.
\<close>

theorem missing_date_column_exits:
  assumes "path_exists e \<or> makedirs_ok e"
    and "read_csv e = Inr df0" and "wf_frame df0"
    and "''Order Date'' \<notin> set (columns df0)
         \<or> (''Ship Date'' \<notin> set (columns df0) \<and> getitem df0 ''Order Date'' = Inr so
             \<and> to_datetime e so = Inr so' \<and> length so' = length so \<and> \<not> list_ex isnull so')"
  shows "\<exists>x. run e =
           \<lparr>printed = (if path_exists e then [] else [FolderCreated])
                @ [Loading, LoadedRows (length (rows df0)), UnexpectedLoadError x],
            files = [], status = Exited\<rparr>"
proof -
  note f = ensure_output_folder_ok [OF assms(1)]
  have "\<exists>x. convert_and_check (to_datetime e) df0 = Inl x"
  proof (cases "''Order Date'' \<notin> set (columns df0)")
    case True
    then show ?thesis by (rule convert_and_check_no_order_date)
  next
    case False
    with assms(4) have b: "''Ship Date'' \<notin> set (columns df0)"
      "getitem df0 ''Order Date'' = Inr so" "to_datetime e so = Inr so'"
      "length so' = length so" "\<not> list_ex isnull so'"
      by auto
    from convert_and_check_no_ship_date [where conv = "to_datetime e", OF assms(3) b(1-4)] b(5)
    show ?thesis by auto
  qed
  then obtain x where "convert_and_check (to_datetime e) df0 = Inl x" by blast
  from load_data_exits [OF assms(2) this] have
    "run e = \<lparr>printed = (if path_exists e then [] else [FolderCreated])
                @ [Loading, LoadedRows (length (rows df0)), UnexpectedLoadError x],
              files = [], status = Exited\<rparr>"
    using f by (intro run_not_loaded) simp_all
  then show ?thesis by blast
qed

theorem missing_date_column_exits_witness:
  "(path_exists (example_env clean_no_ship_date_example)
      \<or> makedirs_ok (example_env clean_no_ship_date_example))
   \<and> read_csv (example_env clean_no_ship_date_example) = Inr clean_no_ship_date_example
   \<and> wf_frame clean_no_ship_date_example
   \<and> ''Ship Date'' \<notin> set (columns clean_no_ship_date_example)
   \<and> getitem clean_no_ship_date_example ''Order Date''
       = Inr [Str ''2023-03-05'', Str ''2023-03-09'']
   \<and> to_datetime (example_env clean_no_ship_date_example) [Str ''2023-03-05'', Str ''2023-03-09'']
       = Inr [Timestamp \<lparr>year = 2023, month = 3, day = 5, nanos = 0\<rparr>,
              Timestamp \<lparr>year = 2023, month = 3, day = 9, nanos = 0\<rparr>]
   \<and> run (example_env clean_no_ship_date_example) =
       \<lparr>printed = [Loading, LoadedRows 2, UnexpectedLoadError (KeyError [''Ship Date''])],
        files = [], status = Exited\<rparr>
   \<and> read_csv (example_env ship_example) = Inr ship_example
   \<and> wf_frame ship_example
   \<and> ''Order Date'' \<notin> set (columns ship_example)
   \<and> run (example_env ship_example) =
       \<lparr>printed = [Loading, LoadedRows 4, UnexpectedLoadError (KeyError [''Order Date''])],
        files = [], status = Exited\<rparr>"
  using missing_date_column_exits [of "example_env clean_no_ship_date_example"
      clean_no_ship_date_example "[Str ''2023-03-05'', Str ''2023-03-09'']"
      "[Timestamp \<lparr>year = 2023, month = 3, day = 5, nanos = 0\<rparr>,
        Timestamp \<lparr>year = 2023, month = 3, day = 9, nanos = 0\<rparr>]"]
    missing_date_column_exits [of "example_env ship_example" ship_example]
  by (simp add: script_defs example_defs ship_example_def)

text \<open>
  A file without \<open>Ship Date\<close> whose second order date does not parse: the run completes
  and writes the ship mode dimension.
\<close>

theorem run_continues_without_ship_date:
  "read_csv (example_env no_ship_date_example) = Inr no_ship_date_example
   \<and> ''Ship Date'' \<notin> set (columns no_ship_date_example)
   \<and> run (example_env no_ship_date_example) =
       \<lparr>printed = [Loading, LoadedRows 2, NullDatesWarning,
          Creating ''customers.csv'', ColumnsMissing ''customers.csv'',
          Creating ''products.csv'', ColumnsMissing ''products.csv'',
          Creating ''DimShipMode.csv'', Saved 2 ''DimShipMode.csv'',
          Creating ''FactSales.csv'',
          FactColumnsMissing [''Customer ID'', ''Product ID'', ''Ship Date'', ''Sales'',
            ''Order_Year'', ''Order_Month'', ''Order_Day'', ''Order_Weekday'', ''Shipping_Delay'',
            ''Log_Sales'', ''Scaled_Sales''],
          AvailableColumns [''Order ID'', ''Order Date'', ''Ship Mode''],
          Finished],
        files = [(''DimShipMode.csv'',
                  \<lparr>columns = [''Ship Mode''], rows = [[Str ''Standard''], [Str ''Express'']]\<rparr>)],
        status = Completed\<rparr>"
  by (simp add: script_defs example_defs)

text \<open>
  Claim C10. In the keyed dimensions a null key is a key like any other: when the first
  source row with the key \<open>NaN\<close> is row \<open>i\<close>, the output has a row with the key \<open>NaN\<close>
  and that row agrees with source row \<open>i\<close> on every column of the dimension. The ship mode
  dimension, in contrast, never has a \<open>NaN\<close> row.
\<close>

theorem keyed_dimension_keeps_null_key:
  assumes "(extract, cols, k) \<in> {(customers_df, customer_cols, ''Customer ID''),
                              (products_df, product_cols, ''Product ID'')}"
    and "list_all (\<lambda>col. col \<in> set (columns df)) cols"
    and "getitem df k = Inr ids"
    and "index_of ids NaN = Some i"
  shows "(\<exists>out ids' j. extract df = Inr out \<and> getitem out k = Inr ids'
           \<and> index_of ids' NaN = Some j
           \<and> (\<forall>c\<in>set cols. \<exists>s s'. getitem df c = Inr s \<and> getitem out c = Inr s'
                 \<and> s' ! j = s ! i))
         \<and> (\<forall>sm. ship_modes_df df = Inr sm \<longrightarrow> [NaN] \<notin> set (rows sm))"
proof -
  have ship: "[NaN] \<notin> set (rows sm)" if "ship_modes_df df = Inr sm" for sm
    using that
    by (auto simp: ship_modes_df_def dropna_def isnull_def split: sum.splits)
  from keyed_dimension [OF assms(1,2)] assms(3) obtain out
    where out: "extract df = Inr out" "getitem out k = Inr (unique ids)"
      and rowsprop: "\<forall>j<length (unique ids). \<exists>i<length ids.
            index_of ids (unique ids ! j) = Some i
            \<and> (\<forall>c\<in>set cols. \<exists>s s'. getitem df c = Inr s \<and> getitem out c = Inr s'
                  \<and> s' ! j = s ! i)"
    by auto
  have "NaN \<in> set (unique ids)"
    using index_of_Some_mem [OF assms(4)] by (simp add: unique_set)
  then obtain j where j: "index_of (unique ids) NaN = Some j"
    using index_of_mem by fastforce
  have jlt: "j < length (unique ids)" and jn: "unique ids ! j = NaN"
    using index_of_Some_D [OF j] by simp_all
  from rowsprop jlt jn assms(4)
  have "\<forall>c\<in>set cols. \<exists>s s'. getitem df c = Inr s \<and> getitem out c = Inr s' \<and> s' ! j = s ! i"
    by fastforce
  with out j ship show ?thesis by blast
qed

theorem keyed_dimension_keeps_null_key_witness:
  "list_all (\<lambda>col. col \<in> set (columns customers_example)) customer_cols
   \<and> getitem customers_example ''Customer ID'' = Inr [Str ''C1'', Str ''C2'', Str ''C1'', NaN, NaN]
   \<and> index_of [Str ''C1'', Str ''C2'', Str ''C1'', NaN, NaN :: nat cell] NaN = Some 3
   \<and> (\<exists>out. customers_df customers_example = Inr out
         \<and> getitem out ''Customer ID'' = Inr [Str ''C1'', Str ''C2'', NaN]
         \<and> getitem out ''Customer Name'' = Inr [Str ''Alice'', Str ''Bob'', Str ''Carol''])"
  using keyed_dimension_keeps_null_key [of customers_df customer_cols "''Customer ID''"
      customers_example "[Str ''C1'', Str ''C2'', Str ''C1'', NaN, NaN]" 3]
  by (simp add: customers_example_def customer_cols_def
      customers_df_def getitems_def drop_duplicates_def getitem_def)

end
